theory Spec2Isabelle
  imports
    Complex_Main
    "HOL-Library.Char_ord"
    "HOL-Library.List_Lexorder"
    "HOL-Library.Multiset"
    "HOL-Library.Product_Lexorder"
begin

section \<open>The fraud dashboard script (app1.py)\<close>

text \<open>
  The program is one Python script over two pandas tables, loan applications and
  transactions. The computations of the script are modelled on the list of the rows of
  a table, a row being a record of the columns the script reads; the run of the script,
  with its DataFrame objects, their columns and the exceptions it raises, is modelled
  over a store further down. Numeric columns are \<open>real\<close>: every comparison of the script
  is against an integer constant and every float is a rational, so the comparisons are
  the script's; the rounding of float arithmetic is not modelled, and every numeric cell
  is present. Text columns are \<open>string\<close>, a list of bytes (the script's UTF-8 text); a
  text cell may be missing, as said with the tables below. Timestamps are \<open>int\<close> (any
  linear time scale).
\<close>

subsection \<open>Derivation layer: DTI risk category (lines 233-243)\<close>

text \<open>
  The two labels with a dash hold U+2013 (EN DASH) in the source; in UTF-8 it is the
  three bytes E2 80 93.
\<close>

definition en_dash :: string where
  "en_dash = [CHR 0xE2, CHR 0x80, CHR 0x93]"

definition dti_category :: "real \<Rightarrow> string" where
  "dti_category x =
     (if x < 20 then ''Excellent (<20)''
      else if 20 \<le> x \<and> x \<le> 35 then ''Good (20'' @ en_dash @ ''35)''
      else if 36 \<le> x \<and> x \<le> 40 then ''Fair (36'' @ en_dash @ ''40)''
      else if 40 < x \<and> x \<le> 100 then ''High Risk (40'' @ en_dash @ ''50)''
      else ''Out of Range'')"

subsection \<open>Derivation layer: age groups (lines 164-169)\<close>

definition age_bins :: "real list" where
  "age_bins = [0, 25, 35, 45, 55, 100]"

definition age_labels :: "string list" where
  "age_labels = [''18-25'', ''26-35'', ''36-45'', ''46-55'', ''56+'']"

text \<open>
  \<open>pd.cut(x, bins, labels)\<close> with its defaults \<open>right=True\<close> and
  \<open>include_lowest=False\<close>: consecutive edges \<open>lo, hi\<close> make the interval \<open>(lo, hi]\<close>,
  carrying the label of the same position; a value in no interval gets no label (NaN,
  here \<open>None\<close>).
\<close>

fun cut :: "real list \<Rightarrow> 'a list \<Rightarrow> real \<Rightarrow> 'a option" where
  "cut (lo # hi # bins) (l # labels) x =
     (if lo < x \<and> x \<le> hi then Some l else cut (hi # bins) labels x)"
| "cut _ _ x = None"

definition age_group_of :: "real \<Rightarrow> string option" where
  "age_group_of a = cut age_bins age_labels a"

text \<open>
  \<open>value_counts().reindex(age_labels)\<close>: one row per label, in the order of
  \<open>age_labels\<close>, with the number of rows carrying it; rows without a label are counted
  nowhere. The argument is the \<open>applicant_age\<close> column.
\<close>

definition age_df :: "real list \<Rightarrow> (string \<times> nat) list" where
  "age_df ages =
     map (\<lambda>l. (l, length (filter (\<lambda>a. age_group_of a = Some l) ages))) age_labels"

subsection \<open>The two tables\<close>

text \<open>
  A row of \<open>loan_applications_filtered.csv\<close> and a row of \<open>transactions.csv\<close>, with the
  columns the script reads. \<open>age_group\<close> and \<open>DTI_Risk_Category\<close> (loans) and \<open>State\<close>
  (transactions) are the columns the script derives; a frame's column list says
  whether they exist (see the frames below).

  Missing cells. \<open>pd.read_csv\<close> reads an empty cell as missing (NaN), so no present
  text cell of a loaded table is the empty text. A text column of the file holds the
  empty string exactly where its cell is missing, and \<open>cell\<close> below is pandas' view of
  it; the identifier \<open>customer_id\<close> is an option, \<open>None\<close> where it is missing. With this
  reading \<open>isin\<close>, \<open>unique\<close> and \<open>==\<close> are as in pandas (a missing cell is a member of
  a selection that holds the missing value, is listed once by \<open>unique\<close>, and equals no
  text), and \<open>groupby\<close>, \<open>value_counts\<close> and \<open>nunique\<close> leave missing cells out, which
  the definitions below do through \<open>cell\<close>. \<open>fraud_flag\<close> is the binary label of both
  tables and present in every row.
\<close>

record loan =
  customer_id :: "string option"
  loan_type :: string
  employment_status :: string
  gender :: string
  property_ownership_status :: string
  loan_status :: string
  fraud_type :: string
  loan_amount_requested :: real
  cibil_score :: real
  monthly_income :: real
  applicant_age :: real
  debt_to_income_ratio :: real
  fraud_flag :: int
  application_date :: int
  age_group :: "string option"
  DTI_Risk_Category :: string

record txn =
  txn_customer_id :: "string option"
  device_used :: string
  transaction_type :: string
  transaction_location :: string
  is_international_transaction :: int
  transaction_amount :: real
  txn_fraud_flag :: int
  transaction_date :: int
  State :: string

text \<open>pandas' view of a text cell of the file: missing, or present with its text.\<close>

definition cell :: "string \<Rightarrow> string option" where
  "cell s = (if s = [] then None else Some s)"

text \<open>The cells of a column that are present.\<close>

definition present :: "'a option list \<Rightarrow> 'a list" where
  "present xs = concat (map (\<lambda>c. case c of None \<Rightarrow> [] | Some v \<Rightarrow> [v]) xs)"

text \<open>\<open>.astype(str)\<close> on a text column: a missing cell becomes the text \<open>nan\<close>.\<close>

definition astype_str :: "string \<Rightarrow> string" where
  "astype_str s = (case cell s of None \<Rightarrow> ''nan'' | Some v \<Rightarrow> v)"

text \<open>Exceptions of the Python run that the model can raise.\<close>

datatype py_error = KeyError string | ZeroDivisionError | ValueError

text \<open>
  The result of a numpy float division: pandas divides a column by a number without
  raising, a zero divisor gives NaN (for \<open>0 / 0\<close>) or a signed infinity.
\<close>

datatype npfloat = Fin real | PosInf | NegInf | NaN

definition np_div :: "real \<Rightarrow> real \<Rightarrow> npfloat" where
  "np_div a b =
     (if b \<noteq> 0 then Fin (a / b)
      else if a = 0 then NaN
      else if 0 < a then PosInf else NegInf)"

fun np_mul :: "npfloat \<Rightarrow> real \<Rightarrow> npfloat" where
  "np_mul (Fin x) c = Fin (x * c)"
| "np_mul PosInf c = (if 0 < c then PosInf else if c < 0 then NegInf else NaN)"
| "np_mul NegInf c = (if 0 < c then NegInf else if c < 0 then PosInf else NaN)"
| "np_mul NaN c = NaN"

text \<open>\<open>Series.mean()\<close>: NaN on an empty column, without raising.\<close>

definition np_mean :: "real list \<Rightarrow> npfloat" where
  "np_mean xs = (if xs = [] then NaN else Fin (sum_list xs / real (length xs)))"

text \<open>\<open>Series.unique()\<close>: the distinct values in order of first appearance.\<close>

fun unique :: "'a list \<Rightarrow> 'a list" where
  "unique [] = []"
| "unique (x # xs) = x # unique (filter (\<lambda>y. y \<noteq> x) xs)"

text \<open>\<open>Series.nunique()\<close>: the number of distinct values, missing cells left out.\<close>

definition nunique :: "'a option list \<Rightarrow> nat" where
  "nunique xs = length (unique (filter (\<lambda>x. x \<noteq> None) xs))"

subsection \<open>State extraction (lines 64 and 225-230)\<close>

text \<open>
  \<open>.str.split(",").str[-1].str.strip()\<close>: the text after the last comma, without
  leading and trailing whitespace. Whitespace is Python's \<open>isspace\<close> on ASCII (tab,
  line feed, vertical tab, form feed, carriage return, the four separators 1C-1F and
  space).
\<close>

definition is_space :: "char \<Rightarrow> bool" where
  "is_space c = (c \<in> set [CHR 0x09, CHR 0x0A, CHR 0x0B, CHR 0x0C, CHR 0x0D,
                           CHR 0x1C, CHR 0x1D, CHR 0x1E, CHR 0x1F, CHR 0x20])"

definition strip :: "string \<Rightarrow> string" where
  "strip s = rev (dropWhile is_space (rev (dropWhile is_space s)))"

definition last_segment :: "string \<Rightarrow> string" where
  "last_segment s = rev (takeWhile (\<lambda>c. c \<noteq> CHR '','') (rev s))"

definition extract_state :: "string \<Rightarrow> string" where
  "extract_state loc = strip (last_segment loc)"

text \<open>
  Line 64 derives State after \<open>.astype(str)\<close>, so every row gets a text. Lines 225-230,
  in the Fraud view, derive it again without: the \<open>.str\<close> methods leave a missing
  location missing, and the State of such a row is missing.
\<close>

definition State_at_load :: "txn \<Rightarrow> string" where
  "State_at_load t = extract_state (astype_str (transaction_location t))"

definition State_in_fraud_view :: "txn \<Rightarrow> string option" where
  "State_in_fraud_view t = map_option extract_state (cell (transaction_location t))"

subsection \<open>Filter engine (lines 79-114)\<close>

text \<open>
  What the sidebar widgets return: the selected values of the five multiselects, and
  \<open>start_date\<close>, \<open>end_date\<close> as the script holds them after \<open>pd.to_datetime\<close>
  (line 110).
\<close>

record selection =
  loan_type_filter :: "string list"
  employment_filter :: "string list"
  gender_filter :: "string list"
  device_filter :: "string list"
  state_filter :: "string list"
  start_date :: int
  end_date :: int

text \<open>
  The rows of \<open>filtered_loans\<close> after line 114 and of \<open>filtered_txns\<close> after line 108,
  statement by statement: \<open>if f:\<close> is true of a non-empty list, \<open>df[df[c].isin(f)]\<close>
  keeps the rows whose cell is a member of \<open>f\<close>, in order.
\<close>

definition filtered_loans :: "selection \<Rightarrow> loan list \<Rightarrow> loan list" where
  "filtered_loans sel loan_df =
     (let fl0 = loan_df;
          fl1 = (if loan_type_filter sel \<noteq> []
                 then filter (\<lambda>r. loan_type r \<in> set (loan_type_filter sel)) fl0 else fl0);
          fl2 = (if employment_filter sel \<noteq> []
                 then filter (\<lambda>r. employment_status r \<in> set (employment_filter sel)) fl1 else fl1);
          fl3 = (if gender_filter sel \<noteq> []
                 then filter (\<lambda>r. gender r \<in> set (gender_filter sel)) fl2 else fl2)
      in filter (\<lambda>r. start_date sel \<le> application_date r \<and> application_date r \<le> end_date sel) fl3)"

definition filtered_txns :: "selection \<Rightarrow> txn list \<Rightarrow> txn list" where
  "filtered_txns sel txn_df =
     (let ft0 = txn_df;
          ft1 = (if device_filter sel \<noteq> []
                 then filter (\<lambda>t. device_used t \<in> set (device_filter sel)) ft0 else ft0)
      in (if state_filter sel \<noteq> []
          then filter (\<lambda>t. State t \<in> set (state_filter sel)) ft1 else ft1))"

subsection \<open>Fraud view: scalar metrics (lines 252-283)\<close>

definition fraud_loans :: "loan list \<Rightarrow> loan list" where
  "fraud_loans fl = filter (\<lambda>r. fraud_flag r = 1) fl"

definition fraud_txns :: "txn list \<Rightarrow> txn list" where
  "fraud_txns ft = filter (\<lambda>t. txn_fraud_flag t = 1) ft"

definition loan_fraud_rate :: "loan list \<Rightarrow> real" where
  "loan_fraud_rate fl =
     (let total_loan_apps = length fl
      in if total_loan_apps \<noteq> 0
         then real (length (fraud_loans fl)) / real total_loan_apps else 0)"

definition txn_fraud_rate :: "txn list \<Rightarrow> real" where
  "txn_fraud_rate ft =
     (let total_txns = length ft
      in if total_txns \<noteq> 0 then real (length (fraud_txns ft)) / real total_txns else 0)"

definition total_fraud_rate :: "loan list \<Rightarrow> txn list \<Rightarrow> real" where
  "total_fraud_rate fl ft = (loan_fraud_rate fl + txn_fraud_rate ft) * 100"

definition total_fraud_value :: "loan list \<Rightarrow> txn list \<Rightarrow> real" where
  "total_fraud_value fl ft =
     sum_list (map loan_amount_requested (fraud_loans fl)) +
     sum_list (map transaction_amount (fraud_txns ft))"

definition undetected_pct :: "loan list \<Rightarrow> real" where
  "undetected_pct fl =
     (let total_fraud = length (fraud_loans fl);
          undetected_fraud =
            filter (\<lambda>r. loan_status r = ''Fraudulent - Undetected'') (fraud_loans fl)
      in if total_fraud \<noteq> 0
         then real (length undetected_fraud) / real total_fraud * 100 else 0)"

definition risk_density :: "loan list \<Rightarrow> real" where
  "risk_density fl =
     (let total_fraud = length (fraud_loans fl);
          total_customers = nunique (map customer_id fl)
      in if total_customers \<noteq> 0
         then real total_fraud / real total_customers * 1000 else 0)"

subsection \<open>Sample rows\<close>

text \<open>One row of each table and a selection with no active filter, for the closed examples.\<close>

definition sample_loan :: loan where
  "sample_loan = \<lparr>customer_id = Some ''C001'', loan_type = ''Home'',
     employment_status = ''Salaried'', gender = ''F'', property_ownership_status = ''Owned'',
     loan_status = ''Approved'', fraud_type = '''', loan_amount_requested = 500000,
     cibil_score = 750, monthly_income = 60000, applicant_age = 34,
     debt_to_income_ratio = 28, fraud_flag = 0, application_date = 100,
     age_group = None, DTI_Risk_Category = ''''\<rparr>"

definition sample_txn :: txn where
  "sample_txn = \<lparr>txn_customer_id = Some ''C001'', device_used = ''Mobile'',
     transaction_type = ''UPI'', transaction_location = ''Chennai, Tamil Nadu'',
     is_international_transaction = 0, transaction_amount = 1200, txn_fraud_flag = 0,
     transaction_date = 250, State = ''Tamil Nadu''\<rparr>"

definition no_filters :: "int \<Rightarrow> int \<Rightarrow> selection" where
  "no_filters s e = \<lparr>loan_type_filter = [], employment_filter = [], gender_filter = [],
     device_filter = [], state_filter = [], start_date = s, end_date = e\<rparr>"

subsection \<open>Top fraudulent states (lines 360-367)\<close>

text \<open>
  \<open>Series.value_counts()\<close>: one row per distinct present value with the number of its
  occurrences, the most frequent first; missing cells are left out. pandas counts
  through a hash table, which yields the values in order of first appearance
  (\<open>counts_table\<close>), and then sorts the rows with \<open>sort_values(ascending=False)\<close>. The
  script says nothing about rows of equal count, and what pandas' sort does with them
  differs between its versions: the sort is a parameter of the model, and all that is
  known of it is \<open>descending_sort\<close>: it returns the rows it is given, in descending
  order of count.
\<close>

definition counts_table :: "'a option list \<Rightarrow> ('a \<times> nat) list" where
  "counts_table xs = map (\<lambda>v. (v, count_list (present xs) v)) (unique (present xs))"

type_synonym 'a sorter = "('a \<times> nat) list \<Rightarrow> ('a \<times> nat) list"

definition descending_sort :: "'a sorter \<Rightarrow> bool" where
  "descending_sort srt =
     (\<forall>t. mset (srt t) = mset t \<and> sorted_wrt (\<lambda>a b. snd b \<le> snd a) (srt t))"

definition value_counts :: "'a sorter \<Rightarrow> 'a option list \<Rightarrow> ('a \<times> nat) list" where
  "value_counts srt xs = srt (counts_table xs)"

text \<open>
  \<open>value_counts(normalize=True)\<close>: each count divided by the sum of the counts, which
  is the number of present cells.
\<close>

definition value_counts_normalized :: "'a sorter \<Rightarrow> 'a option list \<Rightarrow> ('a \<times> real) list" where
  "value_counts_normalized srt xs =
     map (\<lambda>p. (fst p, real (snd p) / real (length (present xs)))) (value_counts srt xs)"

text \<open>
  \<open>state_ranking\<close> is \<open>fraud_txns["State"].value_counts(normalize=True)\<close> with the
  share already times 100, on the State column of the Fraud view; \<open>state_fraud\<close> is the
  frame the chart gets: its first ten rows (\<open>.head(10)\<close>), columns \<open>State\<close> and \<open>pct\<close>.
\<close>

definition state_ranking :: "string sorter \<Rightarrow> txn list \<Rightarrow> (string \<times> real) list" where
  "state_ranking srt ft =
     map (\<lambda>p. (fst p, snd p * 100))
       (value_counts_normalized srt (map State_in_fraud_view (fraud_txns ft)))"

definition state_fraud :: "string sorter \<Rightarrow> txn list \<Rightarrow> (string \<times> real) list" where
  "state_fraud srt ft =
     map (\<lambda>p. (fst p, snd p * 100))
       (take 10 (value_counts_normalized srt (map State_in_fraud_view (fraud_txns ft))))"

text \<open>
  Two descending sorts for the closed examples: one keeps rows of equal count in the
  order it gets them, the other turns them round.
\<close>

definition first_seen_first :: "'a sorter" where
  "first_seen_first t = sort_key (\<lambda>p. - int (snd p)) t"

definition last_seen_first :: "'a sorter" where
  "last_seen_first t = rev (sort_key (\<lambda>p. int (snd p)) t)"

text \<open>A fraudulent transaction in a given State, and one whose location is missing.\<close>

definition fraud_in :: "string \<Rightarrow> txn" where
  "fraud_in s = sample_txn\<lparr>txn_fraud_flag := 1, transaction_location := ''Town, '' @ s,
     State := s\<rparr>"

definition fraud_nowhere :: txn where
  "fraud_nowhere = sample_txn\<lparr>txn_fraud_flag := 1, transaction_location := [],
     State := ''nan''\<rparr>"

subsection \<open>Aggregation pipelines: share of the parent group\<close>

text \<open>
  \<open>df.groupby([a, b]).size().reset_index(name="count")\<close>: one row per pair of key
  values that occurs, in ascending order of the pair, with the number of rows of the
  pair. \<open>df.groupby([a, b])[c].nunique()\<close>: the same rows, with the number of distinct
  values of column \<open>c\<close> among the rows of the pair, missing cells left out. A row with a
  missing key cell belongs to no group (\<open>dropna=True\<close>): the key of a row is an
  option, \<open>None\<close> when one of its key cells is missing.
\<close>

definition both :: "'a option \<Rightarrow> 'b option \<Rightarrow> ('a \<times> 'b) option" where
  "both a b = (case a of None \<Rightarrow> None | Some x \<Rightarrow> map_option (Pair x) b)"

definition groupby_size :: "('r \<Rightarrow> 'k::linorder option) \<Rightarrow> 'r list \<Rightarrow> ('k \<times> nat) list" where
  "groupby_size key df =
     map (\<lambda>k. (k, length (filter (\<lambda>r. key r = Some k) df)))
       (sort (remdups (present (map key df))))"

definition groupby_nunique ::
  "('r \<Rightarrow> 'k::linorder option) \<Rightarrow> ('r \<Rightarrow> 'v option) \<Rightarrow> 'r list \<Rightarrow> ('k \<times> nat) list" where
  "groupby_nunique key col df =
     map (\<lambda>k. (k, nunique (map col (filter (\<lambda>r. key r = Some k) df))))
       (sort (remdups (present (map key df))))"

text \<open>
  The sum of the values of the rows of one outer key: \<open>x.sum()\<close> in the transform
  below.
\<close>

definition group_total :: "(('o \<times> 'i) \<times> nat) list \<Rightarrow> 'o \<Rightarrow> nat" where
  "group_total agg k = sum_list (map snd (filter (\<lambda>q. fst (fst q) = k) agg))"

text \<open>
  A row of an aggregation with its percentage, and the transform of lines 303-306,
  326-329, 388-391, 464-466 and 538-540:
  \<open>agg["pct"] = agg.groupby(outer)[value].transform(lambda x: x / x.sum() * 100)\<close>.
  The division is numpy's: no guard, no exception.
\<close>

record ('o, 'i) pct_row =
  outer_key :: 'o
  inner_key :: 'i
  group_value :: nat
  pct :: npfloat

definition with_pct :: "(('o \<times> 'i) \<times> nat) list \<Rightarrow> ('o, 'i) pct_row list" where
  "with_pct agg =
     map (\<lambda>r. \<lparr>outer_key = fst (fst r), inner_key = snd (fst r), group_value = snd r,
               pct = np_mul (np_div (real (snd r)) (real (group_total agg (fst (fst r))))) 100\<rparr>)
       agg"

definition emp_fraud :: "loan list \<Rightarrow> (string, string) pct_row list" where
  "emp_fraud fl =
     with_pct (groupby_size (\<lambda>r. both (cell (employment_status r)) (cell (fraud_type r)))
                 (fraud_loans fl))"

definition dti_fraud :: "loan list \<Rightarrow> (string, int) pct_row list" where
  "dti_fraud fl =
     with_pct (groupby_size (\<lambda>r. Some (dti_category (debt_to_income_ratio r), fraud_flag r)) fl)"

definition prop_fraud :: "loan list \<Rightarrow> (string, int) pct_row list" where
  "prop_fraud fl =
     with_pct (groupby_nunique
                 (\<lambda>r. both (cell (property_ownership_status r)) (Some (fraud_flag r)))
                 customer_id fl)"

definition device_risk :: "txn list \<Rightarrow> (string, int) pct_row list" where
  "device_risk ft =
     with_pct (groupby_size (\<lambda>t. both (cell (device_used t)) (Some (txn_fraud_flag t))) ft)"

definition fraud_device :: "txn list \<Rightarrow> (string, int) pct_row list" where
  "fraud_device ft =
     with_pct (groupby_size (\<lambda>t. both (cell (device_used t)) (Some (txn_fraud_flag t))) ft)"

subsection \<open>Behavioral view: scalar metrics (lines 413-419)\<close>

text \<open>
  \<open>s.value_counts().idxmax()\<close> on a text column: \<open>idxmax\<close> of an empty series (no
  present cell) raises \<open>ValueError\<close>; otherwise it returns a value of the greatest
  count, the one that the sort of \<open>value_counts\<close> puts first. Which one that is among
  several values of the greatest count the script does not determine: the model
  returns them all, in order of first appearance.
\<close>

definition idxmax_value_counts :: "string list \<Rightarrow> py_error + string list" where
  "idxmax_value_counts xs =
     (let t = counts_table (map cell xs)
      in if t = [] then Inl ValueError
         else Inr (map fst (filter (\<lambda>p. snd p = fold max (map snd t) 0) t)))"

record behavioral_kpis =
  kpi_total_transactions :: nat
  kpi_total_customers :: nat
  kpi_avg_transaction_value :: npfloat
  kpi_success_rate :: real
  kpi_top_location :: "string list"
  kpi_top_txn_type :: "string list"

text \<open>
  Line 416 divides two Python integers, \<open>shape[0] / total_transactions\<close>: with no
  transaction this raises \<open>ZeroDivisionError\<close>. Nothing guards it.
\<close>

definition behavioral_kpi_calculations :: "txn list \<Rightarrow> py_error + behavioral_kpis" where
  "behavioral_kpi_calculations ft =
     (let total_transactions = length ft;
          total_customers = nunique (map txn_customer_id ft);
          avg_transaction_value = np_mean (map transaction_amount ft)
      in if total_transactions = 0 then Inl ZeroDivisionError
         else
           let success_rate =
                 real (length (filter (\<lambda>t. txn_fraud_flag t = 0) ft)) / real total_transactions * 100
           in case idxmax_value_counts (map transaction_location ft) of
                Inl e \<Rightarrow> Inl e
              | Inr top_location \<Rightarrow>
                  (case idxmax_value_counts (map transaction_type ft) of
                     Inl e \<Rightarrow> Inl e
                   | Inr top_txn_type \<Rightarrow>
                       Inr \<lparr>kpi_total_transactions = total_transactions,
                            kpi_total_customers = total_customers,
                            kpi_avg_transaction_value = avg_transaction_value,
                            kpi_success_rate = success_rate,
                            kpi_top_location = top_location,
                            kpi_top_txn_type = top_txn_type\<rparr>))"

subsection \<open>Executive view: scalar metrics (lines 126-130)\<close>

record executive_kpis =
  kpi_total_apps :: nat
  kpi_grand_total_amount :: real
  kpi_avg_cibil :: npfloat
  kpi_approval_rate :: real
  kpi_avg_income :: npfloat

definition executive_kpi_calculations :: "loan list \<Rightarrow> executive_kpis" where
  "executive_kpi_calculations fl =
     (let total_apps = length fl
      in \<lparr>kpi_total_apps = total_apps,
          kpi_grand_total_amount = sum_list (map loan_amount_requested fl),
          kpi_avg_cibil = np_mean (map cibil_score fl),
          kpi_approval_rate =
            (if 0 < total_apps
             then real (length (filter (\<lambda>r. loan_status r = ''Approved'') fl)) / real total_apps * 100
             else 0),
          kpi_avg_income = np_mean (map monthly_income fl)\<rparr>)"

subsection \<open>The script as a run over a store\<close>

text \<open>
  A DataFrame object: the names of its columns and its rows. A cell of a row record
  whose column the frame does not have is never read: every read of a column checks
  the name first and raises \<open>KeyError\<close> when it is missing, as \<open>df[name]\<close> does.
\<close>

record 'r frame =
  columns :: "string list"
  rows :: "'r list"

text \<open>
  The store of one run of the script: the DataFrame objects by address (one heap per
  table type), the four variables that hold a frame, and the messages shown by
  \<open>st.error\<close>. \<open>loan_df_at\<close>, \<open>txn_df_at\<close>, \<open>filtered_loans_at\<close> and
  \<open>filtered_txns_at\<close> are the addresses bound to the variables \<open>loan_df\<close>, \<open>txn_df\<close>,
  \<open>filtered_loans\<close> and \<open>filtered_txns\<close>; the last two are unbound until lines 92-93
  assign them, and nothing reads them before.
\<close>

record store =
  loan_heap :: "loan frame list"
  txn_heap :: "txn frame list"
  loan_df_at :: nat
  txn_df_at :: nat
  filtered_loans_at :: nat
  filtered_txns_at :: nat
  messages :: "string list"

text \<open>The store after \<open>loan_df, txn_df = load_data()\<close> (line 58).\<close>

definition loaded :: "loan frame \<Rightarrow> txn frame \<Rightarrow> store" where
  "loaded loans txns =
     \<lparr>loan_heap = [loans], txn_heap = [txns], loan_df_at = 0, txn_df_at = 0,
      filtered_loans_at = 0, filtered_txns_at = 0, messages = []\<rparr>"

text \<open>A run ends normally or with an uncaught exception, in both cases in some store.\<close>

datatype outcome = Finished store | Raised py_error store

fun final_store :: "outcome \<Rightarrow> store" where
  "final_store (Finished s) = s"
| "final_store (Raised e s) = s"

text \<open>Statements in sequence: the first exception ends the run.\<close>

fun run :: "(store \<Rightarrow> outcome) list \<Rightarrow> store \<Rightarrow> outcome" where
  "run [] s = Finished s"
| "run (f # fs) s = (case f s of Finished s' \<Rightarrow> run fs s' | Raised e s' \<Rightarrow> Raised e s')"

text \<open>\<open>df[name] = ...\<close>: the column is replaced, or appended when it is new, in place.\<close>

definition set_column :: "string \<Rightarrow> ('r \<Rightarrow> 'r) \<Rightarrow> 'r frame \<Rightarrow> 'r frame" where
  "set_column name upd f =
     \<lparr>columns = (if name \<in> set (columns f) then columns f else columns f @ [name]),
      rows = map upd (rows f)\<rparr>"

text \<open>Reading columns: \<open>KeyError\<close> on the first name, in order, that the frame lacks.\<close>

definition need :: "string list \<Rightarrow> 'r frame \<Rightarrow> store \<Rightarrow> outcome" where
  "need names f s =
     (case find (\<lambda>c. c \<notin> set (columns f)) names of
        None \<Rightarrow> Finished s
      | Some c \<Rightarrow> Raised (KeyError c) s)"

definition need_loans :: "string list \<Rightarrow> store \<Rightarrow> outcome" where
  "need_loans names s = need names (loan_heap s ! filtered_loans_at s) s"

definition need_txns :: "string list \<Rightarrow> store \<Rightarrow> outcome" where
  "need_txns names s = need names (txn_heap s ! filtered_txns_at s) s"

text \<open>A computation that reads the store and may raise.\<close>

definition check :: "(store \<Rightarrow> py_error option) \<Rightarrow> store \<Rightarrow> outcome" where
  "check c s = (case c s of None \<Rightarrow> Finished s | Some e \<Rightarrow> Raised e s)"

text \<open>Lines 63-66: the State column is added to the object of \<open>txn_df\<close> itself.\<close>

definition state_extraction :: "store \<Rightarrow> outcome" where
  "state_extraction s =
     (if ''transaction_location'' \<in> set (columns (txn_heap s ! txn_df_at s))
      then Finished (s\<lparr>txn_heap := (txn_heap s)[txn_df_at s :=
             set_column ''State'' (\<lambda>t. t\<lparr>State := State_at_load t\<rparr>)
               (txn_heap s ! txn_df_at s)]\<rparr>)
      else Finished (s\<lparr>messages := messages s @
             [''transaction_location column not found in transactions.csv'']\<rparr>))"

text \<open>
  Lines 79-89: the widgets read the \<open>unique()\<close> values of five columns and the least
  and greatest application date, from the source tables.
\<close>

definition sidebar_filters :: "store \<Rightarrow> outcome" where
  "sidebar_filters s =
     run [need [''loan_type'', ''employment_status'', ''gender''] (loan_heap s ! loan_df_at s),
          need [''device_used'', ''State''] (txn_heap s ! txn_df_at s),
          need [''application_date''] (loan_heap s ! loan_df_at s)] s"

text \<open>Lines 92-93: \<open>.copy()\<close> makes a new object.\<close>

definition copy_sources :: "store \<Rightarrow> outcome" where
  "copy_sources s =
     Finished (s\<lparr>loan_heap := loan_heap s @ [loan_heap s ! loan_df_at s],
                 filtered_loans_at := length (loan_heap s),
                 txn_heap := txn_heap s @ [txn_heap s ! txn_df_at s],
                 filtered_txns_at := length (txn_heap s)\<rparr>)"

text \<open>
  \<open>filtered = filtered[mask over filtered[col]]\<close>: boolean indexing makes a new
  object with the rows kept, and the variable is bound to it.
\<close>

definition select_loans :: "string \<Rightarrow> (loan \<Rightarrow> bool) \<Rightarrow> store \<Rightarrow> outcome" where
  "select_loans col keep s =
     (let f = loan_heap s ! filtered_loans_at s
      in if col \<in> set (columns f)
         then Finished (s\<lparr>loan_heap := loan_heap s @ [f\<lparr>rows := filter keep (rows f)\<rparr>],
                          filtered_loans_at := length (loan_heap s)\<rparr>)
         else Raised (KeyError col) s)"

definition select_txns :: "string \<Rightarrow> (txn \<Rightarrow> bool) \<Rightarrow> store \<Rightarrow> outcome" where
  "select_txns col keep s =
     (let f = txn_heap s ! filtered_txns_at s
      in if col \<in> set (columns f)
         then Finished (s\<lparr>txn_heap := txn_heap s @ [f\<lparr>rows := filter keep (rows f)\<rparr>],
                          filtered_txns_at := length (txn_heap s)\<rparr>)
         else Raised (KeyError col) s)"

definition when_selected :: "string list \<Rightarrow> (store \<Rightarrow> outcome) \<Rightarrow> store \<Rightarrow> outcome" where
  "when_selected chosen f s = (if chosen \<noteq> [] then f s else Finished s)"

definition filter_steps :: "selection \<Rightarrow> (store \<Rightarrow> outcome) list" where
  "filter_steps sel =
     [copy_sources,
      when_selected (loan_type_filter sel)
        (select_loans ''loan_type'' (\<lambda>r. loan_type r \<in> set (loan_type_filter sel))),
      when_selected (employment_filter sel)
        (select_loans ''employment_status''
           (\<lambda>r. employment_status r \<in> set (employment_filter sel))),
      when_selected (gender_filter sel)
        (select_loans ''gender'' (\<lambda>r. gender r \<in> set (gender_filter sel))),
      when_selected (device_filter sel)
        (select_txns ''device_used'' (\<lambda>t. device_used t \<in> set (device_filter sel))),
      when_selected (state_filter sel)
        (select_txns ''State'' (\<lambda>t. State t \<in> set (state_filter sel))),
      select_loans ''application_date''
        (\<lambda>r. start_date sel \<le> application_date r \<and> application_date r \<le> end_date sel)]"

text \<open>\<open>filtered_loans[name] = ...\<close> and \<open>filtered_txns[name] = ...\<close>, in place.\<close>

definition assign_loans :: "string \<Rightarrow> (loan \<Rightarrow> loan) \<Rightarrow> store \<Rightarrow> outcome" where
  "assign_loans name upd s =
     Finished (s\<lparr>loan_heap := (loan_heap s)[filtered_loans_at s :=
                   set_column name upd (loan_heap s ! filtered_loans_at s)]\<rparr>)"

definition assign_txns :: "string \<Rightarrow> (txn \<Rightarrow> txn) \<Rightarrow> store \<Rightarrow> outcome" where
  "assign_txns name upd s =
     Finished (s\<lparr>txn_heap := (txn_heap s)[filtered_txns_at s :=
                   set_column name upd (txn_heap s ! filtered_txns_at s)]\<rparr>)"

text \<open>
  The three views, as far as they touch the store or can raise: the columns they
  read, in the order of the reads, the columns they assign, and the computations that
  raise. The charts only read. The State column that the Fraud view writes back holds
  the empty text where the State is missing (\<open>State_in_fraud_view\<close> tells it from a
  State that is the empty text).
\<close>

datatype page = Executive_Loan_Portfolio | Fraud_Intelligence | Behavioral_Risk_Analysis

definition view_steps :: "page \<Rightarrow> (store \<Rightarrow> outcome) list" where
  "view_steps p =
     (case p of
        Executive_Loan_Portfolio \<Rightarrow>
          [need_loans [''loan_amount_requested'', ''cibil_score'', ''loan_status'',
                       ''monthly_income'', ''loan_type'', ''applicant_age''],
           assign_loans ''age_group'' (\<lambda>r. r\<lparr>age_group := age_group_of (applicant_age r)\<rparr>)]
      | Fraud_Intelligence \<Rightarrow>
          [need_txns [''transaction_location''],
           assign_txns ''State'' (\<lambda>t. t\<lparr>State := extract_state (transaction_location t)\<rparr>),
           need_loans [''debt_to_income_ratio''],
           assign_loans ''DTI_Risk_Category''
             (\<lambda>r. r\<lparr>DTI_Risk_Category := dti_category (debt_to_income_ratio r)\<rparr>),
           need_loans [''fraud_flag''],
           need_txns [''fraud_flag''],
           need_loans [''loan_amount_requested''],
           need_txns [''transaction_amount''],
           need_loans [''loan_status'', ''customer_id'', ''employment_status'', ''fraud_type'',
                       ''property_ownership_status'']]
      | Behavioral_Risk_Analysis \<Rightarrow>
          [need_txns [''customer_id'', ''transaction_amount'', ''fraud_flag''],
           check (\<lambda>s. if length (rows (txn_heap s ! filtered_txns_at s)) = 0
                      then Some ZeroDivisionError else None),
           need_txns [''transaction_location''],
           check (\<lambda>s. case idxmax_value_counts
                             (map transaction_location (rows (txn_heap s ! filtered_txns_at s))) of
                        Inl e \<Rightarrow> Some e | Inr v \<Rightarrow> None),
           need_txns [''transaction_type''],
           check (\<lambda>s. case idxmax_value_counts
                             (map transaction_type (rows (txn_heap s ! filtered_txns_at s))) of
                        Inl e \<Rightarrow> Some e | Inr v \<Rightarrow> None),
           need_txns [''device_used'', ''is_international_transaction'', ''transaction_date''],
           assign_txns ''transaction_date'' (\<lambda>t. t),
           need_loans [''monthly_income'', ''loan_amount_requested'', ''fraud_flag'']])"

text \<open>The script from line 60 on, for the widget values \<open>sel\<close> and the page chosen.\<close>

definition script :: "selection \<Rightarrow> page \<Rightarrow> store \<Rightarrow> outcome" where
  "script sel p = run ([state_extraction, sidebar_filters] @ filter_steps sel @ view_steps p)"

text \<open>Frames with the columns of the two files, for the closed examples.\<close>

definition loan_columns :: "string list" where
  "loan_columns = [''customer_id'', ''loan_type'', ''employment_status'', ''gender'',
     ''property_ownership_status'', ''loan_status'', ''fraud_type'', ''loan_amount_requested'',
     ''cibil_score'', ''monthly_income'', ''applicant_age'', ''debt_to_income_ratio'',
     ''fraud_flag'', ''application_date'']"

definition txn_columns :: "string list" where
  "txn_columns = [''customer_id'', ''device_used'', ''transaction_type'',
     ''transaction_location'', ''is_international_transaction'', ''transaction_amount'',
     ''fraud_flag'', ''transaction_date'']"

subsection \<open>Frame conditions on the store\<close>

text \<open>
  \<open>sources_bound\<close>: the variables \<open>loan_df\<close> and \<open>txn_df\<close> hold objects of the heap.
  \<open>views_separate\<close>: so do \<open>filtered_loans\<close> and \<open>filtered_txns\<close>, and they are other
  objects than the sources. \<open>same_sources s s'\<close>: the two source variables hold in
  \<open>s'\<close> the addresses they hold in \<open>s\<close>, and the objects there have the same columns and
  rows.
\<close>

definition sources_bound :: "store \<Rightarrow> bool" where
  "sources_bound s =
     (loan_df_at s < length (loan_heap s) \<and> txn_df_at s < length (txn_heap s))"

definition views_separate :: "store \<Rightarrow> bool" where
  "views_separate s =
     (sources_bound s \<and>
      filtered_loans_at s < length (loan_heap s) \<and> filtered_txns_at s < length (txn_heap s) \<and>
      filtered_loans_at s \<noteq> loan_df_at s \<and> filtered_txns_at s \<noteq> txn_df_at s)"

definition same_sources :: "store \<Rightarrow> store \<Rightarrow> bool" where
  "same_sources s s' =
     (loan_df_at s' = loan_df_at s \<and> txn_df_at s' = txn_df_at s \<and>
      loan_heap s' ! loan_df_at s' = loan_heap s ! loan_df_at s \<and>
      txn_heap s' ! txn_df_at s' = txn_heap s ! txn_df_at s)"

text \<open>A statement that, run where the views are separate, keeps them so and the sources as they are.\<close>

definition keeps_sources :: "(store \<Rightarrow> outcome) \<Rightarrow> bool" where
  "keeps_sources f =
     (\<forall>s. views_separate s \<longrightarrow>
        views_separate (final_store (f s)) \<and> same_sources s (final_store (f s)))"

section \<open>Properties\<close>

lemma dti_labels_distinct:
  "distinct [''Excellent (<20)'', ''Good (20'' @ en_dash @ ''35)'',
     ''Fair (36'' @ en_dash @ ''40)'', ''High Risk (40'' @ en_dash @ ''50)'',
     ''Out of Range'']"
  by (simp add: en_dash_def)

text \<open>
  C1. The DTI categorisation follows the five bands of the claim, every value that
  falls in no band (so every value strictly between 35 and 36, and every value above
  100) is ``Out of Range'', and the seven sample values get the stated labels.
\<close>

theorem dti_category_bands:
  "(x < 20 \<longrightarrow> dti_category x = ''Excellent (<20)'') \<and>
   (20 \<le> x \<and> x \<le> 35 \<longrightarrow> dti_category x = ''Good (20'' @ en_dash @ ''35)'') \<and>
   (36 \<le> x \<and> x \<le> 40 \<longrightarrow> dti_category x = ''Fair (36'' @ en_dash @ ''40)'') \<and>
   (40 < x \<and> x \<le> 100 \<longrightarrow> dti_category x = ''High Risk (40'' @ en_dash @ ''50)'') \<and>
   (\<not> x < 20 \<and> \<not> (20 \<le> x \<and> x \<le> 35) \<and> \<not> (36 \<le> x \<and> x \<le> 40) \<and> \<not> (40 < x \<and> x \<le> 100)
      \<longrightarrow> dti_category x = ''Out of Range'') \<and>
   (35 < x \<and> x < 36 \<longrightarrow> dti_category x = ''Out of Range'') \<and>
   dti_category 19.9 = ''Excellent (<20)'' \<and>
   dti_category 20 = ''Good (20'' @ en_dash @ ''35)'' \<and>
   dti_category 35 = ''Good (20'' @ en_dash @ ''35)'' \<and>
   dti_category 36 = ''Fair (36'' @ en_dash @ ''40)'' \<and>
   dti_category 40 = ''Fair (36'' @ en_dash @ ''40)'' \<and>
   dti_category 41 = ''High Risk (40'' @ en_dash @ ''50)'' \<and>
   dti_category 150 = ''Out of Range''"
  by (simp add: dti_category_def)

theorem dti_category_bands_witness:
  "dti_category 10 = ''Excellent (<20)'' \<and>
   dti_category 27.5 = ''Good (20'' @ en_dash @ ''35)'' \<and>
   dti_category 38 = ''Fair (36'' @ en_dash @ ''40)'' \<and>
   dti_category 77 = ''High Risk (40'' @ en_dash @ ''50)'' \<and>
   dti_category 35.5 = ''Out of Range'' \<and>
   dti_category 100.5 = ''Out of Range''"
  using dti_category_bands [of 10] dti_category_bands [of "27.5"] dti_category_bands [of 38]
    dti_category_bands [of 77] dti_category_bands [of "35.5"] dti_category_bands [of "100.5"]
  by simp

subsection \<open>Age groups\<close>


lemma age_group_of_cases:
  "age_group_of a =
     (if 0 < a \<and> a \<le> 25 then Some ''18-25''
      else if 25 < a \<and> a \<le> 35 then Some ''26-35''
      else if 35 < a \<and> a \<le> 45 then Some ''36-45''
      else if 45 < a \<and> a \<le> 55 then Some ''46-55''
      else if 55 < a \<and> a \<le> 100 then Some ''56+''
      else None)"
  by (simp add: age_group_of_def age_bins_def age_labels_def)

lemma age_group_of_range:
  "age_group_of a \<noteq> None \<longleftrightarrow> 0 < a \<and> a \<le> 100"
  unfolding age_group_of_cases by (simp; linarith)

lemma age_group_of_label:
  "age_group_of a = Some l \<Longrightarrow> l \<in> set age_labels"
  unfolding age_group_of_cases age_labels_def by (simp split: if_splits)

lemma age_labels_distinct: "distinct age_labels"
  by (simp add: age_labels_def)

text \<open>Counting per label over a list of distinct labels counts every labelled row once.\<close>

lemma count_over_labels:
  "distinct ls \<Longrightarrow>
   sum_list (map (\<lambda>l. length (filter (\<lambda>a. f a = Some l) xs)) ls) =
   length (filter (\<lambda>a. \<exists>l \<in> set ls. f a = Some l) xs)"
proof (induction ls)
  case Nil
  show ?case by simp
next
  case (Cons l ls)
  have split: "length (filter (\<lambda>a. f a = Some l \<or> (\<exists>k \<in> set ls. f a = Some k)) xs) =
      length (filter (\<lambda>a. f a = Some l) xs) +
      length (filter (\<lambda>a. \<exists>k \<in> set ls. f a = Some k) xs)"
    using Cons.prems by (induction xs) auto
  from Cons show ?case by (simp add: split)
qed

lemma age_df_total:
  "sum_list (map snd (age_df ages)) = length (filter (\<lambda>a. 0 < a \<and> a \<le> 100) ages)"
proof -
  have "sum_list (map snd (age_df ages)) =
      length (filter (\<lambda>a. \<exists>l \<in> set age_labels. age_group_of a = Some l) ages)"
    unfolding age_df_def using count_over_labels [OF age_labels_distinct, of age_group_of ages]
    by (simp add: comp_def)
  also have "(\<lambda>a. \<exists>l \<in> set age_labels. age_group_of a = Some l) = (\<lambda>a. 0 < a \<and> a \<le> 100)"
    using age_group_of_range age_group_of_label by (intro ext) (metis not_None_eq)
  finally show ?thesis .
qed

text \<open>
  C2, as stated, fails at the lower edge: age 0 lies in \<open>[0, 100]\<close> and gets no label,
  since the first interval of \<open>pd.cut\<close> is \<open>(0, 25]\<close>, open at 0.
\<close>

theorem age_zero_unlabelled:
  "age_group_of 0 = None \<and> \<not> (\<forall>a. 0 \<le> a \<and> a \<le> 100 \<longrightarrow> age_group_of a \<noteq> None)"
proof -
  have z: "age_group_of 0 = None" by (simp add: age_group_of_cases)
  then show ?thesis by (intro conjI) (simp, metis order_refl zero_le_numeral)
qed

lemma age_group_of_unique:
  "0 < a \<and> a \<le> 100 \<Longrightarrow> \<exists>!l. l \<in> set age_labels \<and> age_group_of a = Some l"
proof -
  assume "0 < a \<and> a \<le> 100"
  then have "age_group_of a \<noteq> None" using age_group_of_range [of a] by blast
  then obtain l where l: "age_group_of a = Some l" by blast
  with age_group_of_label have "l \<in> set age_labels" by blast
  with l show ?thesis by auto
qed

lemma age_group_of_bins:
  "(0 < a \<and> a \<le> 25 \<longrightarrow> age_group_of a = Some ''18-25'') \<and>
   (25 < a \<and> a \<le> 35 \<longrightarrow> age_group_of a = Some ''26-35'') \<and>
   (35 < a \<and> a \<le> 45 \<longrightarrow> age_group_of a = Some ''36-45'') \<and>
   (45 < a \<and> a \<le> 55 \<longrightarrow> age_group_of a = Some ''46-55'') \<and>
   (55 < a \<and> a \<le> 100 \<longrightarrow> age_group_of a = Some ''56+'')"
  unfolding age_group_of_cases by simp

lemma age_group_of_samples:
  "age_group_of 25 = Some ''18-25'' \<and> age_group_of 26 = Some ''26-35'' \<and>
   age_group_of 100 = Some ''56+'' \<and> age_group_of (- 1) = None \<and> age_group_of 101 = None"
  unfolding age_group_of_cases by simp

text \<open>
  C2 (amended). Every age in \<open>(0, 100]\<close> gets exactly one of the five labels, by the
  intervals \<open>(0,25], (25,35], (35,45], (45,55], (55,100]\<close>; every age at or below 0 or
  above 100 gets none; 25, 26 and 100 get ``18-25'', ``26-35'' and ``56+''; -1 and 101
  get none; and the counts of the bucketed output add up to the number of ages in
  \<open>(0, 100]\<close>, so an unlabelled age is counted nowhere.
\<close>

theorem age_group_bins:
  "(0 < a \<and> a \<le> 100 \<longrightarrow> (\<exists>!l. l \<in> set age_labels \<and> age_group_of a = Some l)) \<and>
   (a \<le> 0 \<or> 100 < a \<longrightarrow> age_group_of a = None) \<and>
   (0 < a \<and> a \<le> 25 \<longrightarrow> age_group_of a = Some ''18-25'') \<and>
   (25 < a \<and> a \<le> 35 \<longrightarrow> age_group_of a = Some ''26-35'') \<and>
   (35 < a \<and> a \<le> 45 \<longrightarrow> age_group_of a = Some ''36-45'') \<and>
   (45 < a \<and> a \<le> 55 \<longrightarrow> age_group_of a = Some ''46-55'') \<and>
   (55 < a \<and> a \<le> 100 \<longrightarrow> age_group_of a = Some ''56+'') \<and>
   age_group_of 25 = Some ''18-25'' \<and> age_group_of 26 = Some ''26-35'' \<and>
   age_group_of 100 = Some ''56+'' \<and> age_group_of (- 1) = None \<and> age_group_of 101 = None \<and>
   sum_list (map snd (age_df ages)) = length (filter (\<lambda>a. 0 < a \<and> a \<le> 100) ages)"
proof -
  have out: "a \<le> 0 \<or> 100 < a \<longrightarrow> age_group_of a = None"
    using age_group_of_range [of a] by auto
  show ?thesis
    using age_group_of_unique [of a] out age_group_of_bins [of a] age_group_of_samples
      age_df_total [of ages]
    by blast
qed

theorem age_group_bins_witness:
  "age_group_of 30 = Some ''26-35'' \<and> age_group_of 0 = None \<and> age_group_of 60 = Some ''56+'' \<and>
   sum_list (map snd (age_df [0, 25, 26, 101])) = 2"
  using age_group_bins [of 30 "[0, 25, 26, 101]"] age_group_bins [of 0 "[]"]
    age_group_bins [of 60 "[]"]
  by simp

subsection \<open>Filter engine\<close>

text \<open>
  C5. For every selection, the filtered loan view holds exactly the loan rows, in their
  order, that satisfy every active loan predicate (a dimension with an empty selection
  imposes nothing) and whose application timestamp lies in \<open>[start_date, end_date]\<close>,
  both ends included; the filtered transaction view holds exactly the transaction rows
  that satisfy the active device and state predicates; both are subsets of their
  source tables.
\<close>

theorem filtered_views_exact:
  "filtered_loans sel loan_df =
     filter (\<lambda>r. (loan_type_filter sel = [] \<or> loan_type r \<in> set (loan_type_filter sel)) \<and>
                 (employment_filter sel = [] \<or> employment_status r \<in> set (employment_filter sel)) \<and>
                 (gender_filter sel = [] \<or> gender r \<in> set (gender_filter sel)) \<and>
                 start_date sel \<le> application_date r \<and> application_date r \<le> end_date sel) loan_df \<and>
   filtered_txns sel txn_df =
     filter (\<lambda>t. (device_filter sel = [] \<or> device_used t \<in> set (device_filter sel)) \<and>
                 (state_filter sel = [] \<or> State t \<in> set (state_filter sel))) txn_df \<and>
   set (filtered_loans sel loan_df) \<subseteq> set loan_df \<and>
   set (filtered_txns sel txn_df) \<subseteq> set txn_df"
  by (auto simp: filtered_loans_def filtered_txns_def Let_def intro: filter_cong)

theorem filtered_views_exact_witness:
  "filtered_loans (no_filters 0 200\<lparr>gender_filter := [''M'']\<rparr>)
     [sample_loan, sample_loan\<lparr>gender := ''M''\<rparr>,
      sample_loan\<lparr>gender := ''M'', application_date := 201\<rparr>] =
     [sample_loan\<lparr>gender := ''M''\<rparr>] \<and>
   filtered_txns (no_filters 0 200\<lparr>device_filter := [''Web'', ''ATM'']\<rparr>)
     [sample_txn, sample_txn\<lparr>device_used := ''ATM'', transaction_date := 999\<rparr>] =
     [sample_txn\<lparr>device_used := ''ATM'', transaction_date := 999\<rparr>]"
  using filtered_views_exact [of "no_filters 0 200\<lparr>gender_filter := [''M'']\<rparr>"
      "[sample_loan, sample_loan\<lparr>gender := ''M''\<rparr>,
        sample_loan\<lparr>gender := ''M'', application_date := 201\<rparr>]"]
    filtered_views_exact [of "no_filters 0 200\<lparr>device_filter := [''Web'', ''ATM'']\<rparr>" "[]"
      "[sample_txn, sample_txn\<lparr>device_used := ''ATM'', transaction_date := 999\<rparr>]"]
  by (simp add: no_filters_def sample_loan_def sample_txn_def)

lemma filtered_txns_pred:
  "filtered_txns sel txn_df =
     filter (\<lambda>t. (device_filter sel = [] \<or> device_used t \<in> set (device_filter sel)) \<and>
                 (state_filter sel = [] \<or> State t \<in> set (state_filter sel))) txn_df"
  by (auto simp: filtered_txns_def Let_def intro: filter_cong)

text \<open>
  C10. The two views are filtered independently: the loan type, employment status,
  gender and date range selections do not change the transaction view, the device and
  state selections do not change the loan view, and the transaction view does not look
  at transaction dates: changing the dates of the transactions changes nothing but the
  dates of the rows kept, and a transaction is in the view exactly when it meets the
  device and state predicates.
\<close>

theorem views_filtered_independently:
  "filtered_txns (sel\<lparr>loan_type_filter := lt, employment_filter := em, gender_filter := g,
       start_date := s, end_date := e\<rparr>) txn_df = filtered_txns sel txn_df \<and>
   filtered_loans (sel\<lparr>device_filter := dv, state_filter := st\<rparr>) loan_df =
     filtered_loans sel loan_df \<and>
   filtered_txns sel (map (\<lambda>t. t\<lparr>transaction_date := d t\<rparr>) txn_df) =
     map (\<lambda>t. t\<lparr>transaction_date := d t\<rparr>) (filtered_txns sel txn_df) \<and>
   (t \<in> set (filtered_txns sel txn_df) \<longleftrightarrow>
      t \<in> set txn_df \<and>
      (device_filter sel = [] \<or> device_used t \<in> set (device_filter sel)) \<and>
      (state_filter sel = [] \<or> State t \<in> set (state_filter sel)))"
proof (intro conjI)
  show "filtered_txns (sel\<lparr>loan_type_filter := lt, employment_filter := em, gender_filter := g,
       start_date := s, end_date := e\<rparr>) txn_df = filtered_txns sel txn_df"
    by (simp add: filtered_txns_def)
  show "filtered_loans (sel\<lparr>device_filter := dv, state_filter := st\<rparr>) loan_df =
     filtered_loans sel loan_df"
    by (simp add: filtered_loans_def)
  show "filtered_txns sel (map (\<lambda>t. t\<lparr>transaction_date := d t\<rparr>) txn_df) =
     map (\<lambda>t. t\<lparr>transaction_date := d t\<rparr>) (filtered_txns sel txn_df)"
    by (simp add: filtered_txns_pred filter_map comp_def)
  show "t \<in> set (filtered_txns sel txn_df) \<longleftrightarrow>
      t \<in> set txn_df \<and>
      (device_filter sel = [] \<or> device_used t \<in> set (device_filter sel)) \<and>
      (state_filter sel = [] \<or> State t \<in> set (state_filter sel))"
    by (simp add: filtered_txns_pred)
qed

theorem views_filtered_independently_witness:
  "filtered_txns (no_filters 0 0\<lparr>gender_filter := [''M'']\<rparr>)
     [sample_txn, sample_txn\<lparr>transaction_date := 999\<rparr>] =
   [sample_txn, sample_txn\<lparr>transaction_date := 999\<rparr>] \<and>
   filtered_loans (no_filters 0 0\<lparr>gender_filter := [''M'']\<rparr>) [sample_loan] = []"
  using views_filtered_independently [where sel = "no_filters 0 0" and lt = "[]" and em = "[]"
      and g = "[''M'']" and s = 0 and e = 0 and dv = "[]" and st = "[]"
      and txn_df = "[sample_txn, sample_txn\<lparr>transaction_date := 999\<rparr>]"
      and loan_df = "[sample_loan]" and d = transaction_date and t = sample_txn]
  by (simp add: no_filters_def sample_loan_def sample_txn_def filtered_txns_def filtered_loans_def)

subsection \<open>Total fraud rate\<close>

lemma filtered_loans_no_filters:
  assumes "loan_type_filter sel = []" "employment_filter sel = []" "gender_filter sel = []"
    and "\<forall>r \<in> set loan_df. start_date sel \<le> application_date r \<and> application_date r \<le> end_date sel"
  shows "filtered_loans sel loan_df = loan_df"
  using assms by (simp add: filtered_loans_def filter_id_conv)

lemma filtered_txns_no_filters:
  "device_filter sel = [] \<Longrightarrow> state_filter sel = [] \<Longrightarrow> filtered_txns sel txn_df = txn_df"
  by (simp add: filtered_txns_def)

lemma total_fraud_rate_unfold:
  "total_fraud_rate fl ft =
     ((if length fl = 0 then 0
       else real (length (filter (\<lambda>r. fraud_flag r = 1) fl)) / real (length fl)) +
      (if length ft = 0 then 0
       else real (length (filter (\<lambda>t. txn_fraud_flag t = 1) ft)) / real (length ft))) * 100"
  by (simp add: total_fraud_rate_def loan_fraud_rate_def txn_fraud_rate_def fraud_loans_def
      fraud_txns_def)

text \<open>
  C7. The total fraud rate is the loan fraud fraction (0 without loans) plus the
  transaction fraud fraction (0 without transactions), times 100. With no active
  filter (no categorical selection, a date range that covers every application date),
  100 loans of which 10 are flagged and 200 transactions of which 20 are flagged give
  exactly 20.
\<close>

theorem total_fraud_rate_value:
  "total_fraud_rate fl ft =
     ((if length fl = 0 then 0
       else real (length (filter (\<lambda>r. fraud_flag r = 1) fl)) / real (length fl)) +
      (if length ft = 0 then 0
       else real (length (filter (\<lambda>t. txn_fraud_flag t = 1) ft)) / real (length ft))) * 100 \<and>
   (length loan_df = 100 \<and> length (filter (\<lambda>r. fraud_flag r = 1) loan_df) = 10 \<and>
    length txn_df = 200 \<and> length (filter (\<lambda>t. txn_fraud_flag t = 1) txn_df) = 20 \<and>
    loan_type_filter sel = [] \<and> employment_filter sel = [] \<and> gender_filter sel = [] \<and>
    device_filter sel = [] \<and> state_filter sel = [] \<and>
    (\<forall>r \<in> set loan_df. start_date sel \<le> application_date r \<and> application_date r \<le> end_date sel)
    \<longrightarrow> total_fraud_rate (filtered_loans sel loan_df) (filtered_txns sel txn_df) = 20)"
proof (intro conjI impI)
  show "total_fraud_rate fl ft =
     ((if length fl = 0 then 0
       else real (length (filter (\<lambda>r. fraud_flag r = 1) fl)) / real (length fl)) +
      (if length ft = 0 then 0
       else real (length (filter (\<lambda>t. txn_fraud_flag t = 1) ft)) / real (length ft))) * 100"
    by (rule total_fraud_rate_unfold)
next
  assume h: "length loan_df = 100 \<and> length (filter (\<lambda>r. fraud_flag r = 1) loan_df) = 10 \<and>
    length txn_df = 200 \<and> length (filter (\<lambda>t. txn_fraud_flag t = 1) txn_df) = 20 \<and>
    loan_type_filter sel = [] \<and> employment_filter sel = [] \<and> gender_filter sel = [] \<and>
    device_filter sel = [] \<and> state_filter sel = [] \<and>
    (\<forall>r \<in> set loan_df. start_date sel \<le> application_date r \<and> application_date r \<le> end_date sel)"
  then have fl: "filtered_loans sel loan_df = loan_df"
    by (intro filtered_loans_no_filters) simp_all
  from h have ft: "filtered_txns sel txn_df = txn_df"
    by (intro filtered_txns_no_filters) simp_all
  from h show "total_fraud_rate (filtered_loans sel loan_df) (filtered_txns sel txn_df) = 20"
    unfolding fl ft total_fraud_rate_unfold by simp
qed

theorem total_fraud_rate_value_witness:
  "total_fraud_rate
     (filtered_loans (no_filters 0 365)
        (replicate 10 (sample_loan\<lparr>fraud_flag := 1\<rparr>) @ replicate 90 sample_loan))
     (filtered_txns (no_filters 0 365)
        (replicate 20 (sample_txn\<lparr>txn_fraud_flag := 1\<rparr>) @ replicate 180 sample_txn)) = 20 \<and>
   total_fraud_rate [] [] = 0 \<and>
   total_fraud_rate [] [sample_txn\<lparr>txn_fraud_flag := 1\<rparr>, sample_txn] = 50"
  using total_fraud_rate_value [where sel = "no_filters 0 365"
      and loan_df = "replicate 10 (sample_loan\<lparr>fraud_flag := 1\<rparr>) @ replicate 90 sample_loan"
      and txn_df = "replicate 20 (sample_txn\<lparr>txn_fraud_flag := 1\<rparr>) @ replicate 180 sample_txn"
      and fl = "[]" and ft = "[]"]
    total_fraud_rate_value [where fl = "[]" and ft = "[sample_txn\<lparr>txn_fraud_flag := 1\<rparr>, sample_txn]"
      and sel = "no_filters 0 0" and loan_df = "[]" and txn_df = "[]"]
  by (simp add: no_filters_def sample_loan_def sample_txn_def)

subsection \<open>Columns with missing cells\<close>

lemma set_unique: "set (unique xs) = set xs"
  by (induction xs rule: unique.induct) auto

lemma distinct_unique: "distinct (unique xs)"
  by (induction xs rule: unique.induct) (auto simp: set_unique)

lemma set_present: "set (present xs) = {v. Some v \<in> set xs}"
  by (induction xs) (auto simp: present_def split: option.splits)

lemma count_list_present:
  "count_list (present (map f xs)) v = length (filter (\<lambda>x. f x = Some v) xs)"
  by (induction xs) (auto simp: present_def split: option.splits)

lemma length_present:
  "length (present (map f xs)) = length (filter (\<lambda>x. f x \<noteq> None) xs)"
  by (induction xs) (auto simp: present_def split: option.splits)

subsection \<open>Top fraudulent states\<close>

lemma counts_table_set:
  "set (counts_table xs) = (\<lambda>v. (v, count_list (present xs) v)) ` set (present xs)"
  by (simp add: counts_table_def set_unique)

lemma counts_table_distinct: "distinct (map fst (counts_table xs))"
  by (simp add: counts_table_def comp_def distinct_unique)

lemma value_counts_set:
  assumes "descending_sort srt"
  shows "set (value_counts srt xs) = (\<lambda>v. (v, count_list (present xs) v)) ` set (present xs)"
proof -
  from assms have "mset (srt (counts_table xs)) = mset (counts_table xs)"
    by (simp add: descending_sort_def)
  then have "set (srt (counts_table xs)) = set (counts_table xs)" by (rule mset_eq_setD)
  then show ?thesis by (simp add: value_counts_def counts_table_set)
qed

lemma value_counts_sorted:
  "descending_sort srt \<Longrightarrow> sorted_wrt (\<lambda>a b. snd b \<le> snd a) (value_counts srt xs)"
  by (simp add: descending_sort_def value_counts_def)

lemma value_counts_distinct:
  assumes "descending_sort srt"
  shows "distinct (map fst (value_counts srt xs))"
proof -
  from assms have "mset (srt (counts_table xs)) = mset (counts_table xs)"
    by (simp add: descending_sort_def)
  then have "mset (map fst (srt (counts_table xs))) = mset (map fst (counts_table xs))"
    by (metis mset_map)
  then have "distinct (map fst (srt (counts_table xs))) = distinct (map fst (counts_table xs))"
    by (rule mset_eq_imp_distinct_iff)
  then show ?thesis by (simp add: value_counts_def counts_table_distinct)
qed

lemma state_ranking_rows:
  "state_ranking srt ft =
     map (\<lambda>r. (fst r, real (snd r) /
                 real (length (filter (\<lambda>t. State_in_fraud_view t \<noteq> None) (fraud_txns ft))) * 100))
       (value_counts srt (map State_in_fraud_view (fraud_txns ft)))"
  by (simp add: state_ranking_def value_counts_normalized_def comp_def length_present)

lemma state_ranking_sorted:
  assumes "descending_sort srt"
  shows "sorted_wrt (\<lambda>a b. snd b \<le> snd a) (state_ranking srt ft)"
proof -
  let ?n = "real (length (filter (\<lambda>t. State_in_fraud_view t \<noteq> None) (fraud_txns ft)))"
  have "sorted_wrt (\<lambda>a b. real (snd b) / ?n * 100 \<le> real (snd a) / ?n * 100)
          (value_counts srt (map State_in_fraud_view (fraud_txns ft)))"
    by (rule sorted_wrt_mono_rel [OF _ value_counts_sorted [OF assms]])
       (simp add: divide_right_mono)
  then show ?thesis by (simp add: state_ranking_rows sorted_wrt_map)
qed

lemma state_fraud_take: "state_fraud srt ft = take 10 (state_ranking srt ft)"
  by (simp add: state_fraud_def state_ranking_def take_map)

lemma state_ranking_pct:
  assumes "descending_sort srt" and "r \<in> set (state_ranking srt ft)"
  shows "snd r = real (length (filter (\<lambda>t. State_in_fraud_view t = Some (fst r)) (fraud_txns ft)))
      / real (length (filter (\<lambda>t. State_in_fraud_view t \<noteq> None) (fraud_txns ft))) * 100"
  using assms(2)
  by (auto simp: state_ranking_rows value_counts_set [OF assms(1)] count_list_present)

lemma state_ranking_states:
  assumes "descending_sort srt"
  shows "set (map fst (state_ranking srt ft)) =
     {s. Some s \<in> State_in_fraud_view ` set (fraud_txns ft)}"
  by (auto simp: state_ranking_rows value_counts_set [OF assms] set_present image_iff)

text \<open>The two sample sorts are descending sorts.\<close>

lemma descending_first_seen_first: "descending_sort first_seen_first"
proof -
  have "sorted_wrt (\<lambda>a b. snd b \<le> snd a) (sort_key (\<lambda>p. - int (snd p)) t)"
    for t :: "('a \<times> nat) list"
    using sorted_sort_key [of "\<lambda>p. - int (snd p)" t]
    by (simp add: sorted_map sorted_wrt_iff_nth_less)
  then show ?thesis by (simp add: descending_sort_def first_seen_first_def)
qed

lemma descending_last_seen_first: "descending_sort last_seen_first"
proof -
  have "sorted_wrt (\<lambda>a b. snd b \<le> snd a) (rev (sort_key (\<lambda>p. int (snd p)) t))"
    for t :: "('a \<times> nat) list"
  proof -
    have "sorted_wrt (\<lambda>a b. snd a \<le> snd b) (sort_key (\<lambda>p. int (snd p)) t)"
      using sorted_sort_key [of "\<lambda>p. int (snd p)" t]
      by (simp add: sorted_map sorted_wrt_iff_nth_less)
    then show ?thesis by (simp only: sorted_wrt_rev)
  qed
  then show ?thesis by (simp add: descending_sort_def last_seen_first_def)
qed

text \<open>
  C6 (amended). Whatever descending sort the library uses: the ranking has one row per
  State that a fraudulent transaction has (a fraudulent transaction whose location is
  missing has no State and is left out), its percentage the number of fraudulent
  transactions of that State over the number of fraudulent transactions that have a
  State, times 100; the ranking is in descending order of percentage; the chart gets
  the first ten rows of the ranking, so at most ten rows, in descending order of
  percentage. Nothing is said of the order of rows of equal percentage.
\<close>

theorem state_fraud_top10:
  assumes "descending_sort srt"
  shows "state_fraud srt ft = take 10 (state_ranking srt ft) \<and>
   length (state_fraud srt ft) \<le> 10 \<and>
   sorted_wrt (\<lambda>a b. snd b \<le> snd a) (state_fraud srt ft) \<and>
   sorted_wrt (\<lambda>a b. snd b \<le> snd a) (state_ranking srt ft) \<and>
   distinct (map fst (state_ranking srt ft)) \<and>
   set (map fst (state_ranking srt ft)) =
     {s. Some s \<in> State_in_fraud_view ` set (fraud_txns ft)} \<and>
   (\<forall>r \<in> set (state_ranking srt ft).
      snd r = real (length (filter (\<lambda>t. State_in_fraud_view t = Some (fst r)) (fraud_txns ft)))
        / real (length (filter (\<lambda>t. State_in_fraud_view t \<noteq> None) (fraud_txns ft))) * 100)"
proof (intro conjI ballI)
  show "state_fraud srt ft = take 10 (state_ranking srt ft)" by (rule state_fraud_take)
  show "length (state_fraud srt ft) \<le> 10" by (simp add: state_fraud_take)
  show "sorted_wrt (\<lambda>a b. snd b \<le> snd a) (state_ranking srt ft)"
    using assms by (rule state_ranking_sorted)
  then show "sorted_wrt (\<lambda>a b. snd b \<le> snd a) (state_fraud srt ft)"
    unfolding state_fraud_take by (rule sorted_wrt_take)
  show "distinct (map fst (state_ranking srt ft))"
    using value_counts_distinct [OF assms, of "map State_in_fraud_view (fraud_txns ft)"]
    by (simp add: state_ranking_rows comp_def)
  show "set (map fst (state_ranking srt ft)) =
     {s. Some s \<in> State_in_fraud_view ` set (fraud_txns ft)}"
    using assms by (rule state_ranking_states)
next
  fix r assume "r \<in> set (state_ranking srt ft)"
  with assms show "snd r =
      real (length (filter (\<lambda>t. State_in_fraud_view t = Some (fst r)) (fraud_txns ft)))
        / real (length (filter (\<lambda>t. State_in_fraud_view t \<noteq> None) (fraud_txns ft))) * 100"
    by (rule state_ranking_pct)
qed

text \<open>The definitions that a closed ranking unfolds.\<close>

lemmas state_fraud_eval = state_fraud_def state_ranking_def value_counts_normalized_def
  value_counts_def counts_table_def present_def State_in_fraud_view_def cell_def
  extract_state_def strip_def last_segment_def is_space_def fraud_txns_def fraud_in_def
  fraud_nowhere_def sample_txn_def

theorem state_fraud_top10_witness:
  "descending_sort (first_seen_first :: string sorter) \<and>
   state_fraud first_seen_first
     [fraud_in ''Goa'', sample_txn, fraud_in ''Kerala'', fraud_in ''Delhi'', fraud_in ''Kerala'']
   = [(''Kerala'', 50), (''Goa'', 25), (''Delhi'', 25)] \<and>
   sorted_wrt (\<lambda>a b. snd b \<le> snd a)
     (state_fraud last_seen_first
        [fraud_in ''Goa'', sample_txn, fraud_in ''Kerala'', fraud_in ''Delhi'', fraud_in ''Kerala''])"
proof -
  have ex: "state_fraud first_seen_first
     [fraud_in ''Goa'', sample_txn, fraud_in ''Kerala'', fraud_in ''Delhi'', fraud_in ''Kerala'']
   = [(''Kerala'', 50), (''Goa'', 25), (''Delhi'', 25)]"
    by (simp add: state_fraud_eval first_seen_first_def)
  from state_fraud_top10 [OF descending_last_seen_first, of "[fraud_in ''Goa'', sample_txn,
      fraud_in ''Kerala'', fraud_in ''Delhi'', fraud_in ''Kerala'']"]
  have "sorted_wrt (\<lambda>a b. snd b \<le> snd a)
     (state_fraud last_seen_first
        [fraud_in ''Goa'', sample_txn, fraud_in ''Kerala'', fraud_in ''Delhi'', fraud_in ''Kerala''])"
    by blast
  with ex descending_first_seen_first show ?thesis by blast
qed

text \<open>
  C6, as stated, fails twice. The order of ties: under a descending sort that turns
  rows of equal count round, Delhi is ranked before Goa, which a fraudulent
  transaction shows first. The denominator: of two fraudulent transactions, one in
  Kerala and one without a location, Kerala gets 100 percent, not 50.
\<close>

theorem state_fraud_ties_and_missing_states:
  "descending_sort (last_seen_first :: string sorter) \<and>
   state_ranking last_seen_first
     [fraud_in ''Goa'', fraud_in ''Kerala'', fraud_in ''Delhi'', fraud_in ''Kerala'']
   = [(''Kerala'', 50), (''Delhi'', 25), (''Goa'', 25)] \<and>
   map State_in_fraud_view
     [fraud_in ''Goa'', fraud_in ''Kerala'', fraud_in ''Delhi'', fraud_in ''Kerala'']
   = [Some ''Goa'', Some ''Kerala'', Some ''Delhi'', Some ''Kerala''] \<and>
   length (fraud_txns [fraud_in ''Kerala'', fraud_nowhere]) = 2 \<and>
   State_in_fraud_view fraud_nowhere = None \<and>
   state_fraud first_seen_first [fraud_in ''Kerala'', fraud_nowhere] = [(''Kerala'', 100)]"
  by (simp add: descending_last_seen_first state_fraud_eval first_seen_first_def
      last_seen_first_def)

text \<open>Twelve fraudulent transactions in eleven States: the eleventh State is cut off.\<close>

lemma state_fraud_cuts_at_ten:
  "state_fraud first_seen_first
     (map fraud_in [''A'', ''B'', ''C'', ''D'', ''E'', ''F'', ''G'', ''H'', ''I'', ''J'', ''K'', ''K''])
   = [(''K'', 50 / 3), (''A'', 25 / 3), (''B'', 25 / 3), (''C'', 25 / 3), (''D'', 25 / 3),
      (''E'', 25 / 3), (''F'', 25 / 3), (''G'', 25 / 3), (''H'', 25 / 3), (''I'', 25 / 3)]"
  by (simp add: state_fraud_eval first_seen_first_def)

subsection \<open>Share of the parent group\<close>

lemma count_over_keys:
  "distinct ks \<Longrightarrow>
   sum_list (map (\<lambda>k. length (filter (\<lambda>r. key r = Some k) df)) ks) =
   length (filter (\<lambda>r. \<exists>k \<in> set ks. key r = Some k) df)"
  by (rule count_over_labels)

lemma groupby_size_total:
  "group_total (groupby_size key df) k =
     length (filter (\<lambda>r. map_option fst (key r) = Some k) df)"
proof -
  let ?ks = "filter (\<lambda>q. fst q = k) (sort (remdups (present (map key df))))"
  have d: "distinct ?ks" by simp
  have "group_total (groupby_size key df) k =
      sum_list (map (\<lambda>q. length (filter (\<lambda>r. key r = Some q) df)) ?ks)"
    by (simp add: group_total_def groupby_size_def filter_map comp_def)
  also have "\<dots> = length (filter (\<lambda>r. \<exists>q \<in> set ?ks. key r = Some q) df)"
    by (rule count_over_keys [OF d])
  also have "\<dots> = length (filter (\<lambda>r. map_option fst (key r) = Some k) df)"
  proof (intro arg_cong [where f = length] filter_cong refl)
    fix x assume x: "x \<in> set df"
    show "(\<exists>q \<in> set ?ks. key x = Some q) = (map_option fst (key x) = Some k)"
    proof (cases "key x")
      case None
      then show ?thesis by simp
    next
      case (Some q)
      with x have "Some q \<in> set (map key df)" by force
      then have "q \<in> set (present (map key df))" by (simp add: set_present)
      with Some show ?thesis by auto
    qed
  qed
  finally show ?thesis .
qed

lemma real_sum_list: "real (sum_list ns) = sum_list (map real ns)"
  by (induction ns) auto

lemma group_pcts_sum:
  assumes "group_total agg k \<noteq> 0"
  shows "sum_list (map (\<lambda>q. real (snd q) / real (group_total agg k) * 100)
           (filter (\<lambda>q. fst (fst q) = k) agg)) = 100"
proof -
  let ?G = "filter (\<lambda>q. fst (fst q) = k) agg"
  have "sum_list (map (\<lambda>q. real (snd q) / real (group_total agg k) * 100) ?G) =
      sum_list (map (\<lambda>q. real (snd q) * (100 / real (group_total agg k))) ?G)"
    by (simp add: field_simps)
  also have "\<dots> = sum_list (map (\<lambda>q. real (snd q)) ?G) * (100 / real (group_total agg k))"
    by (rule sum_list_mult_const)
  also have "sum_list (map (\<lambda>q. real (snd q)) ?G) = real (group_total agg k)"
    by (simp add: group_total_def real_sum_list comp_def)
  finally show ?thesis using assms by simp
qed

lemma with_pct_nonzero:
  assumes "r \<in> set (with_pct agg)" and "group_total agg (outer_key r) \<noteq> 0"
  shows "pct r = Fin (real (group_value r) / real (group_total agg (outer_key r)) * 100)"
  using assms by (auto simp: with_pct_def np_div_def)

lemma with_pct_zero:
  assumes "r \<in> set (with_pct agg)" and "group_total agg (outer_key r) = 0"
  shows "group_value r = 0 \<and> pct r = NaN"
proof -
  from assms(1) obtain q where q: "q \<in> set agg" "outer_key r = fst (fst q)"
      "group_value r = snd q"
      "pct r = np_mul (np_div (real (snd q)) (real (group_total agg (fst (fst q))))) 100"
    by (auto simp: with_pct_def)
  from assms(2) q(2) have "sum_list (map snd (filter (\<lambda>p. fst (fst p) = fst (fst q)) agg)) = 0"
    by (simp add: group_total_def)
  with q(1) have "snd q = 0" by (cases q) (auto simp: sum_list_eq_0_iff)
  with q assms(2) show ?thesis by (simp add: np_div_def)
qed

lemma with_pct_group_sum:
  assumes "group_total agg k \<noteq> 0"
  shows "sum_list (map (\<lambda>r. real (group_value r) / real (group_total agg k) * 100)
           (filter (\<lambda>r. outer_key r = k) (with_pct agg))) = 100"
proof -
  have "map (\<lambda>r. real (group_value r) / real (group_total agg k) * 100)
           (filter (\<lambda>r. outer_key r = k) (with_pct agg)) =
        map (\<lambda>q. real (snd q) / real (group_total agg k) * 100)
           (filter (\<lambda>q. fst (fst q) = k) agg)"
    by (simp add: with_pct_def filter_map comp_def)
  then show ?thesis using group_pcts_sum [OF assms] by simp
qed

lemma size_pipeline_row:
  assumes "r \<in> set (with_pct (groupby_size key df))"
  shows "(\<exists>x \<in> set df. key x = Some (outer_key r, inner_key r)) \<and>
         group_value r = length (filter (\<lambda>x. key x = Some (outer_key r, inner_key r)) df) \<and>
         0 < length (filter (\<lambda>x. map_option fst (key x) = Some (outer_key r)) df) \<and>
         pct r = Fin (real (group_value r) /
                      real (length (filter (\<lambda>x. map_option fst (key x) = Some (outer_key r)) df))
                      * 100)"
proof -
  from assms obtain x where x: "x \<in> set df" "key x = Some (outer_key r, inner_key r)"
      "group_value r = length (filter (\<lambda>y. key y = key x) df)"
    by (auto simp: with_pct_def groupby_size_def set_present)
  have pos: "0 < length (filter (\<lambda>y. map_option fst (key y) = Some (outer_key r)) df)"
    using x by (auto simp: filter_empty_conv)
  then have "group_total (groupby_size key df) (outer_key r) \<noteq> 0"
    by (simp add: groupby_size_total)
  from with_pct_nonzero [OF assms this] pos x show ?thesis
    by (auto simp: groupby_size_total)
qed

lemma size_pipeline_sum:
  assumes "x \<in> set df" and "key x = Some (k, i)"
  shows "sum_list (map (\<lambda>r. real (group_value r) /
                   real (length (filter (\<lambda>y. map_option fst (key y) = Some k) df)) * 100)
           (filter (\<lambda>r. outer_key r = k) (with_pct (groupby_size key df)))) = 100"
proof -
  have "0 < length (filter (\<lambda>y. map_option fst (key y) = Some k) df)"
    using assms by (auto simp: filter_empty_conv)
  then have "group_total (groupby_size key df) k \<noteq> 0"
    by (simp add: groupby_size_total)
  from with_pct_group_sum [OF this] show ?thesis by (simp add: groupby_size_total)
qed

lemma both_cells:
  "both (cell a) (cell b) = Some (x, y) \<longleftrightarrow> a = x \<and> b = y \<and> cell a \<noteq> None \<and> cell b \<noteq> None"
  "map_option fst (both (cell a) (cell b)) = Some x \<longleftrightarrow> a = x \<and> cell a \<noteq> None \<and> cell b \<noteq> None"
  "both (cell a) (Some c) = Some (x, z) \<longleftrightarrow> a = x \<and> c = z \<and> cell a \<noteq> None"
  "map_option fst (both (cell a) (Some c)) = Some x \<longleftrightarrow> a = x \<and> cell a \<noteq> None"
  by (auto simp: both_def cell_def)

lemma emp_fraud_rows:
  assumes r: "r \<in> set (emp_fraud fl)"
  shows "cell (outer_key r) \<noteq> None \<and> cell (inner_key r) \<noteq> None \<and>
      group_value r = length (filter (\<lambda>x. employment_status x = outer_key r \<and>
                                           fraud_type x = inner_key r) (fraud_loans fl)) \<and>
      0 < length (filter (\<lambda>x. employment_status x = outer_key r \<and> cell (fraud_type x) \<noteq> None)
                    (fraud_loans fl)) \<and>
      pct r = Fin (real (group_value r) /
                real (length (filter (\<lambda>x. employment_status x = outer_key r \<and>
                                           cell (fraud_type x) \<noteq> None) (fraud_loans fl)))
                * 100) \<and>
      sum_list (map (\<lambda>q. real (group_value q) /
                real (length (filter (\<lambda>x. employment_status x = outer_key r \<and>
                                           cell (fraud_type x) \<noteq> None) (fraud_loans fl)))
                * 100)
        (filter (\<lambda>q. outer_key q = outer_key r) (emp_fraud fl))) = 100"
proof -
  let ?key = "\<lambda>x. both (cell (employment_status x)) (cell (fraud_type x))"
  let ?df = "fraud_loans fl"
  from r have r': "r \<in> set (with_pct (groupby_size ?key ?df))"
    by (simp add: emp_fraud_def)
  note row = size_pipeline_row [OF r']
  from row obtain x where x: "x \<in> set ?df" "?key x = Some (outer_key r, inner_key r)"
    by blast
  then have present: "cell (outer_key r) \<noteq> None" "cell (inner_key r) \<noteq> None"
    by (auto simp: both_cells)
  have f1: "filter (\<lambda>y. ?key y = Some (outer_key r, inner_key r)) ?df =
      filter (\<lambda>y. employment_status y = outer_key r \<and> fraud_type y = inner_key r) ?df"
    using present by (intro filter_cong refl) (auto simp: both_cells)
  have f2: "filter (\<lambda>y. map_option fst (?key y) = Some (outer_key r)) ?df =
      filter (\<lambda>y. employment_status y = outer_key r \<and> cell (fraud_type y) \<noteq> None) ?df"
    using present by (intro filter_cong refl) (auto simp: both_cells)
  from size_pipeline_sum [where key = ?key and df = ?df and x = x and k = "outer_key r"
      and i = "inner_key r", OF x]
  have s: "sum_list (map (\<lambda>q. real (group_value q) /
                real (length (filter (\<lambda>y. map_option fst (?key y) = Some (outer_key r)) ?df))
                * 100)
        (filter (\<lambda>q. outer_key q = outer_key r) (emp_fraud fl))) = 100"
    by (simp add: emp_fraud_def)
  from row s present show ?thesis unfolding f1 f2 by blast
qed

lemma device_risk_rows:
  assumes r: "r \<in> set (device_risk ft)"
  shows "cell (outer_key r) \<noteq> None \<and>
      group_value r = length (filter (\<lambda>x. device_used x = outer_key r \<and>
                                           txn_fraud_flag x = inner_key r) ft) \<and>
      0 < length (filter (\<lambda>x. device_used x = outer_key r) ft) \<and>
      pct r = Fin (real (group_value r) /
                real (length (filter (\<lambda>x. device_used x = outer_key r) ft)) * 100) \<and>
      sum_list (map (\<lambda>q. real (group_value q) /
                real (length (filter (\<lambda>x. device_used x = outer_key r) ft)) * 100)
        (filter (\<lambda>q. outer_key q = outer_key r) (device_risk ft))) = 100"
proof -
  let ?key = "\<lambda>x. both (cell (device_used x)) (Some (txn_fraud_flag x))"
  from r have r': "r \<in> set (with_pct (groupby_size ?key ft))"
    by (simp add: device_risk_def)
  note row = size_pipeline_row [OF r']
  from row obtain x where x: "x \<in> set ft" "?key x = Some (outer_key r, inner_key r)"
    by blast
  then have present: "cell (outer_key r) \<noteq> None"
    by (auto simp: both_cells)
  have f1: "filter (\<lambda>y. ?key y = Some (outer_key r, inner_key r)) ft =
      filter (\<lambda>y. device_used y = outer_key r \<and> txn_fraud_flag y = inner_key r) ft"
    using present by (intro filter_cong refl) (auto simp: both_cells)
  have f2: "filter (\<lambda>y. map_option fst (?key y) = Some (outer_key r)) ft =
      filter (\<lambda>y. device_used y = outer_key r) ft"
    using present by (intro filter_cong refl) (auto simp: both_cells)
  from size_pipeline_sum [where key = ?key and df = ft and x = x and k = "outer_key r"
      and i = "inner_key r", OF x]
  have s: "sum_list (map (\<lambda>q. real (group_value q) /
                real (length (filter (\<lambda>y. map_option fst (?key y) = Some (outer_key r)) ft))
                * 100)
        (filter (\<lambda>q. outer_key q = outer_key r) (device_risk ft))) = 100"
    by (simp add: device_risk_def)
  from row s present show ?thesis unfolding f1 f2 by blast
qed

text \<open>
  C3 (amended). In every share-of-parent-group transform, a row whose outer group has
  a non-zero total gets its value over that total, times 100, and the percentages of
  such a group add up to 100; a row whose outer group has total zero gets NaN. In the
  aggregations by row count (fraud by employment status and fraud type, transactions
  by device and fraud flag) the rows with a missing key cell are in no group, a row's
  value is the number of source rows of its pair of keys, and the total of its outer
  group is the number of source rows of its outer key whose inner key is present,
  which is positive: every row gets its share and every outer group adds up to 100.
\<close>

theorem pct_of_parent_group:
  "(\<forall>r \<in> set (with_pct agg). group_total agg (outer_key r) \<noteq> 0 \<longrightarrow>
      pct r = Fin (real (group_value r) / real (group_total agg (outer_key r)) * 100)) \<and>
   (\<forall>r \<in> set (with_pct agg). group_total agg (outer_key r) = 0 \<longrightarrow> pct r = NaN) \<and>
   (group_total agg k \<noteq> 0 \<longrightarrow>
      sum_list (map (\<lambda>r. real (group_value r) / real (group_total agg k) * 100)
        (filter (\<lambda>r. outer_key r = k) (with_pct agg))) = 100) \<and>
   (\<forall>r \<in> set (emp_fraud fl).
      cell (outer_key r) \<noteq> None \<and> cell (inner_key r) \<noteq> None \<and>
      group_value r = length (filter (\<lambda>x. employment_status x = outer_key r \<and>
                                           fraud_type x = inner_key r) (fraud_loans fl)) \<and>
      0 < length (filter (\<lambda>x. employment_status x = outer_key r \<and> cell (fraud_type x) \<noteq> None)
                    (fraud_loans fl)) \<and>
      pct r = Fin (real (group_value r) /
                real (length (filter (\<lambda>x. employment_status x = outer_key r \<and>
                                           cell (fraud_type x) \<noteq> None) (fraud_loans fl)))
                * 100) \<and>
      sum_list (map (\<lambda>q. real (group_value q) /
                real (length (filter (\<lambda>x. employment_status x = outer_key r \<and>
                                           cell (fraud_type x) \<noteq> None) (fraud_loans fl)))
                * 100)
        (filter (\<lambda>q. outer_key q = outer_key r) (emp_fraud fl))) = 100) \<and>
   (\<forall>r \<in> set (device_risk ft).
      cell (outer_key r) \<noteq> None \<and>
      group_value r = length (filter (\<lambda>x. device_used x = outer_key r \<and>
                                           txn_fraud_flag x = inner_key r) ft) \<and>
      0 < length (filter (\<lambda>x. device_used x = outer_key r) ft) \<and>
      pct r = Fin (real (group_value r) /
                real (length (filter (\<lambda>x. device_used x = outer_key r) ft)) * 100) \<and>
      sum_list (map (\<lambda>q. real (group_value q) /
                real (length (filter (\<lambda>x. device_used x = outer_key r) ft)) * 100)
        (filter (\<lambda>q. outer_key q = outer_key r) (device_risk ft))) = 100)"
  using with_pct_nonzero [of _ agg] with_pct_zero [of _ agg] with_pct_group_sum [of agg k]
    emp_fraud_rows [of _ fl] device_risk_rows [of _ ft]
  by blast

theorem pct_of_parent_group_witness:
  "device_risk (replicate 7 sample_txn @ replicate 3 (sample_txn\<lparr>txn_fraud_flag := 1\<rparr>)) =
     [\<lparr>outer_key = ''Mobile'', inner_key = 0, group_value = 7, pct = Fin 70\<rparr>,
      \<lparr>outer_key = ''Mobile'', inner_key = 1, group_value = 3, pct = Fin 30\<rparr>] \<and>
   group_total (groupby_size (\<lambda>t. both (cell (device_used t)) (Some (txn_fraud_flag t)))
     (replicate 7 sample_txn @ replicate 3 (sample_txn\<lparr>txn_fraud_flag := 1\<rparr>))) ''Mobile'' = 10 \<and>
   sum_list (map (\<lambda>q. real (group_value q) / 10 * 100)
     (filter (\<lambda>q. outer_key q = ''Mobile'')
        (device_risk (replicate 7 sample_txn @ replicate 3 (sample_txn\<lparr>txn_fraud_flag := 1\<rparr>)))))
     = 100"
proof -
  let ?ft = "replicate 7 sample_txn @ replicate 3 (sample_txn\<lparr>txn_fraud_flag := 1\<rparr>)"
  let ?r = "\<lparr>outer_key = ''Mobile'', inner_key = 0::int, group_value = 7, pct = Fin 70\<rparr>"
  have ex: "device_risk ?ft =
     [?r, \<lparr>outer_key = ''Mobile'', inner_key = 1, group_value = 3, pct = Fin 30\<rparr>]"
    by (simp add: device_risk_def with_pct_def groupby_size_def group_total_def sample_txn_def
        np_div_def numeral_eq_Suc both_def cell_def present_def)
  have tot: "group_total (groupby_size (\<lambda>t. both (cell (device_used t)) (Some (txn_fraud_flag t)))
      ?ft) ''Mobile'' = 10"
    by (simp add: groupby_size_def group_total_def sample_txn_def numeral_eq_Suc both_def
        cell_def present_def)
  have len: "length (filter (\<lambda>x. device_used x = ''Mobile'') ?ft) = 10"
    by (simp add: sample_txn_def)
  have mem: "?r \<in> set (device_risk ?ft)" by (simp add: ex)
  have "sum_list (map (\<lambda>q. real (group_value q) /
                real (length (filter (\<lambda>x. device_used x = outer_key ?r) ?ft)) * 100)
        (filter (\<lambda>q. outer_key q = outer_key ?r) (device_risk ?ft))) = 100"
    using pct_of_parent_group [where ft = ?ft, THEN conjunct2, THEN conjunct2, THEN conjunct2,
        THEN conjunct2, THEN bspec, OF mem]
    by blast
  then have "sum_list (map (\<lambda>q. real (group_value q) / 10 * 100)
        (filter (\<lambda>q. outer_key q = ''Mobile'') (device_risk ?ft))) = 100"
    by (simp only: len pct_row.select_convs of_nat_numeral)
  with ex tot show ?thesis by simp
qed

text \<open>
  A fraudulent loan without a fraud type is in no group: of two fraudulent loans of one
  employment status, one without a fraud type, the other makes the whole group.
\<close>

lemma emp_fraud_missing_fraud_type:
  "emp_fraud [sample_loan\<lparr>fraud_flag := 1, fraud_type := ''Identity Theft''\<rparr>,
              sample_loan\<lparr>fraud_flag := 1, fraud_type := []\<rparr>] =
     [\<lparr>outer_key = ''Salaried'', inner_key = ''Identity Theft'', group_value = 1,
       pct = Fin 100\<rparr>]"
  by (simp add: emp_fraud_def with_pct_def groupby_size_def group_total_def sample_loan_def
      fraud_loans_def np_div_def both_def cell_def present_def)

text \<open>
  C3, as stated, fails where an outer group's total is zero: the transform divides
  without a guard, and the percentage is NaN, not 0. Property ownership counts distinct
  customers; one loan whose customer id is missing makes a group of total 0.
\<close>

theorem zero_total_gives_nan:
  "prop_fraud [sample_loan\<lparr>customer_id := None\<rparr>] =
     [\<lparr>outer_key = ''Owned'', inner_key = 0, group_value = 0, pct = NaN\<rparr>] \<and>
   group_total
     (groupby_nunique (\<lambda>r. both (cell (property_ownership_status r)) (Some (fraud_flag r)))
        customer_id [sample_loan\<lparr>customer_id := None\<rparr>]) ''Owned'' = 0 \<and>
   NaN \<noteq> Fin 0"
  by (simp add: prop_fraud_def with_pct_def groupby_nunique_def group_total_def sample_loan_def
      np_div_def nunique_def both_def cell_def present_def)

text \<open>The same on the transform alone: a single row of value 0.\<close>

lemma with_pct_zero_total:
  "with_pct [((k, i), 0)] = [\<lparr>outer_key = k, inner_key = i, group_value = 0, pct = NaN\<rparr>]"
  by (simp add: with_pct_def group_total_def np_div_def)

subsection \<open>Views without rows\<close>

text \<open>
  C4. The device and state selections of the first line are both values of the table,
  and no transaction has both: the filtered transaction view has no row. On no rows
  the Behavioral view's metrics raise \<open>ZeroDivisionError\<close> at the unguarded success
  rate (and \<open>idxmax\<close> of the empty counts would raise \<open>ValueError\<close>), while the
  guarded rates of the Fraud and Executive views are 0; the means of the Executive
  view are NaN.
\<close>

theorem behavioral_view_raises_on_no_rows:
  "filtered_txns (no_filters 0 0\<lparr>device_filter := [''Mobile''], state_filter := [''Goa'']\<rparr>)
     [sample_txn, sample_txn\<lparr>device_used := ''Web'', State := ''Goa''\<rparr>] = [] \<and>
   behavioral_kpi_calculations [] = Inl ZeroDivisionError \<and>
   idxmax_value_counts ([] :: string list) = Inl ValueError \<and>
   total_fraud_rate [] [] = 0 \<and> undetected_pct [] = 0 \<and> risk_density [] = 0 \<and>
   kpi_approval_rate (executive_kpi_calculations []) = 0 \<and>
   kpi_avg_cibil (executive_kpi_calculations []) = NaN"
  by (simp add: filtered_txns_def no_filters_def sample_txn_def behavioral_kpi_calculations_def
      idxmax_value_counts_def counts_table_def present_def total_fraud_rate_def loan_fraud_rate_def
      txn_fraud_rate_def undetected_pct_def risk_density_def fraud_loans_def nunique_def
      executive_kpi_calculations_def np_mean_def)

text \<open>With rows, the Behavioral metrics are computed.\<close>

lemma behavioral_kpis_example:
  "behavioral_kpi_calculations [sample_txn, sample_txn\<lparr>txn_fraud_flag := 1\<rparr>] =
     Inr \<lparr>kpi_total_transactions = 2, kpi_total_customers = 1,
          kpi_avg_transaction_value = Fin 1200, kpi_success_rate = 50,
          kpi_top_location = [''Chennai, Tamil Nadu''], kpi_top_txn_type = [''UPI'']\<rparr>"
  by (simp add: behavioral_kpi_calculations_def idxmax_value_counts_def counts_table_def
      present_def cell_def sample_txn_def nunique_def np_mean_def)

subsection \<open>A transactions file without the location column\<close>

text \<open>
  C8. When the loaded transaction table has neither a \<open>transaction_location\<close> nor a
  \<open>State\<close> column, line 66 shows its message once and no State column is made; then
  line 84 reads \<open>txn_df["State"]\<close> for the State filter and raises \<open>KeyError\<close>: the run
  ends there, for every selection and every page, with no view rendered.
\<close>

theorem missing_location_aborts:
  assumes "''transaction_location'' \<notin> set (columns txns)"
    and "''State'' \<notin> set (columns txns)"
    and "''device_used'' \<in> set (columns txns)"
    and "''loan_type'' \<in> set (columns loans)"
    and "''employment_status'' \<in> set (columns loans)"
    and "''gender'' \<in> set (columns loans)"
  shows "script sel p (loaded loans txns) =
     Raised (KeyError ''State'')
       ((loaded loans txns)\<lparr>messages :=
          [''transaction_location column not found in transactions.csv'']\<rparr>)"
  using assms
  by (simp add: script_def state_extraction_def sidebar_filters_def need_def loaded_def)

theorem missing_location_aborts_witness:
  "script (no_filters 0 365) Executive_Loan_Portfolio
     (loaded \<lparr>columns = loan_columns, rows = [sample_loan]\<rparr>
             \<lparr>columns = [''customer_id'', ''device_used'', ''transaction_type'',
                  ''is_international_transaction'', ''transaction_amount'', ''fraud_flag'',
                  ''transaction_date''], rows = [sample_txn]\<rparr>) =
   Raised (KeyError ''State'')
     \<lparr>loan_heap = [\<lparr>columns = loan_columns, rows = [sample_loan]\<rparr>],
      txn_heap = [\<lparr>columns = [''customer_id'', ''device_used'', ''transaction_type'',
                  ''is_international_transaction'', ''transaction_amount'', ''fraud_flag'',
                  ''transaction_date''], rows = [sample_txn]\<rparr>],
      loan_df_at = 0, txn_df_at = 0, filtered_loans_at = 0, filtered_txns_at = 0,
      messages = [''transaction_location column not found in transactions.csv'']\<rparr>"
  using missing_location_aborts [where sel = "no_filters 0 365" and p = Executive_Loan_Portfolio
      and loans = "\<lparr>columns = loan_columns, rows = [sample_loan]\<rparr>"
      and txns = "\<lparr>columns = [''customer_id'', ''device_used'', ''transaction_type'',
                  ''is_international_transaction'', ''transaction_amount'', ''fraud_flag'',
                  ''transaction_date''], rows = [sample_txn]\<rparr>"]
  by (simp add: loan_columns_def loaded_def)

subsection \<open>The source tables during a run\<close>

lemma same_sources_refl: "same_sources s s"
  by (simp add: same_sources_def)

lemma same_sources_trans:
  "same_sources s t \<Longrightarrow> same_sources t u \<Longrightarrow> same_sources s u"
  unfolding same_sources_def by (elim conjE) simp

lemma run_keeps_sources:
  assumes "\<forall>f \<in> set fs. keeps_sources f" and "views_separate s"
  shows "views_separate (final_store (run fs s)) \<and> same_sources s (final_store (run fs s))"
  using assms
proof (induction fs arbitrary: s)
  case Nil
  then show ?case by (simp add: same_sources_refl)
next
  case (Cons f fs)
  from Cons.prems have f: "views_separate (final_store (f s))" "same_sources s (final_store (f s))"
    by (auto simp: keeps_sources_def)
  show ?case
  proof (cases "f s")
    case (Finished s')
    with f have s': "views_separate s'" "same_sources s s'" by simp_all
    from Cons.IH [OF _ s'(1)] Cons.prems(1)
    have "views_separate (final_store (run fs s')) \<and> same_sources s' (final_store (run fs s'))"
      by simp
    with s' Finished show ?thesis by (auto intro: same_sources_trans)
  next
    case (Raised e s')
    with f show ?thesis by simp
  qed
qed

lemma need_keeps: "final_store (need names f s) = s"
  by (simp add: need_def split: option.split)

lemma keeps_need_loans: "keeps_sources (need_loans names)"
  by (simp add: keeps_sources_def need_loans_def need_keeps same_sources_refl)

lemma keeps_need_txns: "keeps_sources (need_txns names)"
  by (simp add: keeps_sources_def need_txns_def need_keeps same_sources_refl)

lemma keeps_check: "keeps_sources (check c)"
  by (simp add: keeps_sources_def check_def same_sources_refl split: option.split)

lemma keeps_when_selected: "keeps_sources f \<Longrightarrow> keeps_sources (when_selected chosen f)"
  by (simp add: keeps_sources_def when_selected_def same_sources_refl)

lemma keeps_select_loans: "keeps_sources (select_loans col keep)"
  by (auto simp: keeps_sources_def select_loans_def Let_def views_separate_def sources_bound_def
      same_sources_def nth_append)

lemma keeps_select_txns: "keeps_sources (select_txns col keep)"
  by (auto simp: keeps_sources_def select_txns_def Let_def views_separate_def sources_bound_def
      same_sources_def nth_append)

lemma keeps_assign_loans: "keeps_sources (assign_loans name upd)"
  by (auto simp: keeps_sources_def assign_loans_def views_separate_def sources_bound_def
      same_sources_def)

lemma keeps_assign_txns: "keeps_sources (assign_txns name upd)"
  by (auto simp: keeps_sources_def assign_txns_def views_separate_def sources_bound_def
      same_sources_def)

lemmas keeps_steps = keeps_need_loans keeps_need_txns keeps_check keeps_when_selected
  keeps_select_loans keeps_select_txns keeps_assign_loans keeps_assign_txns

lemma keeps_view_steps: "\<forall>f \<in> set (view_steps p). keeps_sources f"
  by (cases p) (simp_all add: view_steps_def keeps_steps)

lemma keeps_filter_steps: "\<forall>f \<in> set (tl (filter_steps sel)). keeps_sources f"
  by (simp add: filter_steps_def keeps_steps)

lemma copy_sources_separates:
  assumes "sources_bound s"
  shows "\<exists>s'. copy_sources s = Finished s' \<and> views_separate s' \<and> same_sources s s'"
  using assms
  by (auto simp: copy_sources_def views_separate_def sources_bound_def same_sources_def nth_append)

lemma sidebar_filters_reads: "final_store (sidebar_filters s) = s"
  by (simp add: sidebar_filters_def need_def split: option.split)

lemma state_extraction_finishes:
  "state_extraction s = Finished (final_store (state_extraction s))"
  by (simp add: state_extraction_def)

lemma state_extraction_bound:
  "sources_bound s \<Longrightarrow> sources_bound (final_store (state_extraction s))"
  by (simp add: state_extraction_def sources_bound_def)

lemma state_extraction_loans:
  "loan_heap (final_store (state_extraction s)) = loan_heap s \<and>
   loan_df_at (final_store (state_extraction s)) = loan_df_at s"
  by (simp add: state_extraction_def)

lemma prefix_keeps_sources:
  assumes b: "sources_bound s" and rest: "\<forall>f \<in> set rest. keeps_sources f"
  shows "same_sources s (final_store (run (take n (sidebar_filters # copy_sources # rest)) s))"
proof (cases n)
  case 0
  then show ?thesis by (simp add: same_sources_refl)
next
  case (Suc m)
  show ?thesis
  proof (cases "sidebar_filters s")
    case (Raised e s')
    with sidebar_filters_reads [of s] have "s' = s" by simp
    with Raised Suc show ?thesis by (simp add: same_sources_refl)
  next
    case (Finished s')
    with sidebar_filters_reads [of s] have s': "s' = s" by simp
    show ?thesis
    proof (cases m)
      case 0
      with Suc Finished s' show ?thesis by (simp add: same_sources_refl)
    next
      case (Suc k)
      from copy_sources_separates [OF b] obtain s2 where
        s2: "copy_sources s = Finished s2" "views_separate s2" "same_sources s s2"
        by blast
      from rest have "\<forall>f \<in> set (take k rest). keeps_sources f"
        by (auto dest: in_set_takeD)
      from run_keeps_sources [OF this s2(2)]
      have "same_sources s2 (final_store (run (take k rest) s2))" by simp
      with s2(3) have "same_sources s (final_store (run (take k rest) s2))"
        by (rule same_sources_trans)
      with \<open>n = Suc m\<close> Suc Finished s' s2(1) show ?thesis by simp
    qed
  qed
qed

lemma filter_steps_head: "filter_steps sel = copy_sources # tl (filter_steps sel)"
  by (simp add: filter_steps_def)

text \<open>
  C9. The source tables are not mutated after load. Loading ends with the State
  derivation of lines 63-66, which belongs to the data loader and works on the loaded
  transaction table itself. From then on, whatever the selection and the page, no
  statement of the run changes the object of \<open>loan_df\<close> or of \<open>txn_df\<close>: after every
  prefix of the statements, and at the end of the run (finished or raised), both
  variables hold the objects they held after load, with the same columns and rows;
  the loan table is as read from the file. Filtering makes new objects, and the
  derived columns of the views are assigned to those.
\<close>

theorem sources_kept_after_state_extraction:
  assumes "sources_bound s"
  shows "loan_heap (final_store (state_extraction s)) ! loan_df_at s = loan_heap s ! loan_df_at s \<and>
     script sel p s =
       run (sidebar_filters # filter_steps sel @ view_steps p) (final_store (state_extraction s)) \<and>
     (\<forall>n. same_sources (final_store (state_extraction s))
            (final_store (run (take n (sidebar_filters # filter_steps sel @ view_steps p))
               (final_store (state_extraction s))))) \<and>
     same_sources (final_store (state_extraction s)) (final_store (script sel p s))"
proof -
  let ?s1 = "final_store (state_extraction s)"
  let ?rest = "tl (filter_steps sel) @ view_steps p"
  have steps: "sidebar_filters # filter_steps sel @ view_steps p =
      sidebar_filters # copy_sources # ?rest"
    using filter_steps_head [of sel] by simp
  have safe: "\<forall>f \<in> set ?rest. keeps_sources f"
    using keeps_filter_steps [of sel] keeps_view_steps [of p] by auto
  have b1: "sources_bound ?s1" using assms by (rule state_extraction_bound)
  have pre: "same_sources ?s1
      (final_store (run (take n (sidebar_filters # filter_steps sel @ view_steps p)) ?s1))" for n
    unfolding steps by (rule prefix_keeps_sources [OF b1 safe])
  have scr: "script sel p s = run (sidebar_filters # filter_steps sel @ view_steps p) ?s1"
    by (cases "state_extraction s") (simp_all add: script_def state_extraction_def split: if_splits)
  have "same_sources ?s1 (final_store (script sel p s))"
    using pre [of "length (sidebar_filters # filter_steps sel @ view_steps p)"]
    unfolding scr by simp
  with pre scr state_extraction_loans [of s] show ?thesis by simp
qed

text \<open>The definitions that a closed run of the script unfolds.\<close>

lemmas script_eval = script_def state_extraction_def State_at_load_def astype_str_def cell_def
  sidebar_filters_def need_def loaded_def
  loan_columns_def txn_columns_def filter_steps_def view_steps_def copy_sources_def
  when_selected_def no_filters_def select_loans_def select_txns_def set_column_def
  need_loans_def need_txns_def assign_loans_def assign_txns_def check_def Let_def

theorem sources_kept_after_state_extraction_witness:
  "same_sources
     (final_store (state_extraction
        (loaded \<lparr>columns = loan_columns, rows = [sample_loan]\<rparr>
                \<lparr>columns = txn_columns, rows = [sample_txn]\<rparr>)))
     (final_store (script (no_filters 0 365) Fraud_Intelligence
        (loaded \<lparr>columns = loan_columns, rows = [sample_loan]\<rparr>
                \<lparr>columns = txn_columns, rows = [sample_txn]\<rparr>)))"
proof -
  have b: "sources_bound (loaded \<lparr>columns = loan_columns, rows = [sample_loan]\<rparr>
                \<lparr>columns = txn_columns, rows = [sample_txn]\<rparr>)"
    by (simp add: sources_bound_def loaded_def)
  from sources_kept_after_state_extraction [OF b, of "no_filters 0 365" Fraud_Intelligence]
  show ?thesis by blast
qed

text \<open>
  The State derivation at load works in place: the object that \<open>load_data\<close> returned
  has the columns of the file, and after the run the same object has one column
  more, \<open>State\<close>.
\<close>

lemma state_extraction_in_place:
  "columns (txn_heap (loaded \<lparr>columns = loan_columns, rows = [sample_loan]\<rparr>
                             \<lparr>columns = txn_columns, rows = [sample_txn]\<rparr>) ! 0) = txn_columns \<and>
   txn_df_at (final_store (script (no_filters 0 365) Executive_Loan_Portfolio
        (loaded \<lparr>columns = loan_columns, rows = [sample_loan]\<rparr>
                \<lparr>columns = txn_columns, rows = [sample_txn]\<rparr>))) = 0 \<and>
   columns (txn_heap (final_store (script (no_filters 0 365) Executive_Loan_Portfolio
        (loaded \<lparr>columns = loan_columns, rows = [sample_loan]\<rparr>
                \<lparr>columns = txn_columns, rows = [sample_txn]\<rparr>))) ! 0) = txn_columns @ [''State''] \<and>
   \<not> same_sources
     (loaded \<lparr>columns = loan_columns, rows = [sample_loan]\<rparr>
             \<lparr>columns = txn_columns, rows = [sample_txn]\<rparr>)
     (final_store (script (no_filters 0 365) Executive_Loan_Portfolio
        (loaded \<lparr>columns = loan_columns, rows = [sample_loan]\<rparr>
                \<lparr>columns = txn_columns, rows = [sample_txn]\<rparr>)))"
  by (simp add: script_eval same_sources_def sample_loan_def)

text \<open>A run of the Fraud view: the derived column is on the third loan object, the first is as loaded.\<close>

lemma fraud_view_example:
  "script (no_filters 0 365) Fraud_Intelligence
     (loaded \<lparr>columns = loan_columns, rows = [sample_loan]\<rparr>
             \<lparr>columns = txn_columns, rows = [sample_txn]\<rparr>) = Finished s \<Longrightarrow>
   messages s = [] \<and> filtered_loans_at s = 2 \<and> filtered_txns_at s = 1 \<and>
   columns (loan_heap s ! 2) = loan_columns @ [''DTI_Risk_Category''] \<and>
   loan_heap s ! 0 = \<lparr>columns = loan_columns, rows = [sample_loan]\<rparr>"
  by (auto simp: script_eval sample_loan_def)

subsection \<open>The store and the filter engine\<close>

text \<open>
  When lines 92-114 finish, the objects of \<open>filtered_loans\<close> and \<open>filtered_txns\<close> hold
  the rows that \<open>filtered_loans\<close> and \<open>filtered_txns\<close> above compute from the rows of
  the sources.
\<close>

lemma filter_steps_rows:
  assumes "run (filter_steps sel) s = Finished s'"
  shows "rows (loan_heap s' ! filtered_loans_at s') =
           filtered_loans sel (rows (loan_heap s ! loan_df_at s)) \<and>
         rows (txn_heap s' ! filtered_txns_at s') =
           filtered_txns sel (rows (txn_heap s ! txn_df_at s))"
  using assms
  by (auto simp: filter_steps_def copy_sources_def when_selected_def select_loans_def
      select_txns_def Let_def filtered_loans_def filtered_txns_def nth_append
      split: if_splits)

end
